theory Spec2Isabelle
  imports Complex_Main
begin

section \<open>The component \<open>assets/Tutorial.ts\<close>\<close>

text \<open>
  The component \<open>Tutorial\<close> shows a hand pointer that visits a list of targets.
  The component is a record of its fields; what it does to the world around
  it is part of the record too, so that every method is a function from state to state:
  \<open>events\<close> are the events emitted on the owning node, \<open>console\<close> the lines
  logged, \<open>microtasks\<close> the promise reactions queued, \<open>timers\<close> the one-shot timers
  set, \<open>tweens\<close> the tweens running on the hand, and \<open>played\<close> the phases of the
  tweens that have run to their end. The parent of the hand in the scene graph
  (\<open>handParent\<close>) plays no part in what follows and is left out.
\<close>

section \<open>The numbers the component computes with\<close>

text \<open>
  Positions, offsets, scales and the press multiplier are JavaScript numbers that the
  pipeline adds and multiplies: IEEE 754 binary64 values, every result rounded to the
  nearest double, ties to the even mantissa. A finite double \<open>Finite sign m e\<close> stands
  for \<open>m * 2 ^ e\<close>, negated when \<open>sign\<close> holds, with \<open>m\<close> below \<open>2 ^ 53\<close>; a normal
  one has \<open>m\<close> from \<open>2 ^ 52\<close> on and \<open>e\<close> from -1074 to 971, a subnormal one has
  \<open>e = -1074\<close>, and the two zeros are \<open>Finite sign 0 0\<close>. The durations, which the
  component only hands to the engine, and the idle counter are reals.
\<close>

datatype double = NaN | Infinity bool | Finite bool int int

function bit_length :: "int \<Rightarrow> int" where
  "bit_length n = (if n \<le> 0 then 0 else 1 + bit_length (n div 2))"
  by pat_completeness auto
termination
  by (relation "measure nat") auto

declare bit_length.simps [simp del]

text \<open>The integer part of the binary logarithm of \<open>num / den\<close>, both positive.\<close>

definition floor_log2 :: "int \<Rightarrow> int \<Rightarrow> int" where
  "floor_log2 num den =
     (let d = bit_length num - bit_length den
      in if (if 0 \<le> d then den * 2 ^ nat d \<le> num else den \<le> num * 2 ^ nat (- d))
         then d else d - 1)"

text \<open>The integer nearest to \<open>num / den\<close>, the even one of two equally near.\<close>

definition round_half_even :: "int \<Rightarrow> int \<Rightarrow> int" where
  "round_half_even num den =
     (let a = num div den; r = num mod den
      in if den < 2 * r \<or> (2 * r = den \<and> odd a) then a + 1 else a)"

text \<open>
  The double nearest to \<open>num / den\<close> (both positive) with the given sign: 53 bits of
  mantissa, fewer below the normal range, infinity beyond the largest double.
\<close>

definition round_double :: "bool \<Rightarrow> int \<Rightarrow> int \<Rightarrow> double" where
  "round_double sign num den =
     (let k = max (floor_log2 num den - 52) (- 1074);
          n = (if 0 \<le> k then round_half_even num (den * 2 ^ nat k)
               else round_half_even (num * 2 ^ nat (- k)) den)
      in if n = 0 then Finite sign 0 0
         else if n = 2 ^ 53
           then (if 971 < k + 1 then Infinity sign else Finite sign (2 ^ 52) (k + 1))
         else if 971 < k then Infinity sign
         else Finite sign n k)"

text \<open>A numeric literal of the source, as the ratio of two integers: 1.2 is \<open>12 / 10\<close>.\<close>

definition double_of_ratio :: "int \<Rightarrow> int \<Rightarrow> double" where
  "double_of_ratio p q =
     (if p = 0 then Finite False 0 0 else round_double (p < 0) \<bar>p\<bar> q)"

definition double_of_int :: "int \<Rightarrow> double" where
  "double_of_int i = double_of_ratio i 1"

text \<open>The \<open>+\<close> of the source on numbers.\<close>

fun double_add :: "double \<Rightarrow> double \<Rightarrow> double" where
  "double_add NaN b = NaN"
| "double_add a NaN = NaN"
| "double_add (Infinity s) (Infinity s') = (if s = s' then Infinity s else NaN)"
| "double_add (Infinity s) (Finite s' m e) = Infinity s"
| "double_add (Finite s' m e) (Infinity s) = Infinity s"
| "double_add (Finite s1 m1 e1) (Finite s2 m2 e2) =
     (let e = min e1 e2;
          a = (if s1 then - 1 else 1) * m1 * 2 ^ nat (e1 - e)
            + (if s2 then - 1 else 1) * m2 * 2 ^ nat (e2 - e)
      in if a = 0 then Finite (s1 \<and> s2) 0 0
         else if 0 \<le> e then round_double (a < 0) (\<bar>a\<bar> * 2 ^ nat e) 1
         else round_double (a < 0) \<bar>a\<bar> (2 ^ nat (- e)))"

text \<open>The \<open>*\<close> of the source on numbers.\<close>

fun double_mul :: "double \<Rightarrow> double \<Rightarrow> double" where
  "double_mul NaN b = NaN"
| "double_mul a NaN = NaN"
| "double_mul (Infinity s) (Infinity s') = Infinity (s \<noteq> s')"
| "double_mul (Infinity s) (Finite s' m e) = (if m = 0 then NaN else Infinity (s \<noteq> s'))"
| "double_mul (Finite s' m e) (Infinity s) = (if m = 0 then NaN else Infinity (s' \<noteq> s))"
| "double_mul (Finite s1 m1 e1) (Finite s2 m2 e2) =
     (let m = m1 * m2; e = e1 + e2
      in if m = 0 then Finite (s1 \<noteq> s2) 0 0
         else if 0 \<le> e then round_double (s1 \<noteq> s2) (m * 2 ^ nat e) 1
         else round_double (s1 \<noteq> s2) m (2 ^ nat (- e)))"

section \<open>Data model of \<open>assets/Tutorial.ts\<close>\<close>

datatype HintType = START_GAME | INACTIVITY | MISSION_FAIL | CUSTOM

fun HintType_value :: "HintType \<Rightarrow> nat" where
  "HintType_value START_GAME = 0"
| "HintType_value INACTIVITY = 1"
| "HintType_value MISSION_FAIL = 2"
| "HintType_value CUSTOM = 3"

datatype Vec3 = Vec3 (vx: double) (vy: double) (vz: double)

text \<open>\<open>new Vec3(a, b, c)\<close> with integer literals.\<close>

definition vec :: "int \<Rightarrow> int \<Rightarrow> int \<Rightarrow> Vec3" where
  "vec a b c = Vec3 (double_of_int a) (double_of_int b) (double_of_int c)"

text \<open>A scene node as far as the component touches it: \<open>active\<close>, world position, scale.\<close>

record Node =
  active :: bool
  nodeWorldPosition :: Vec3
  nodeScale :: Vec3

record TutorialTarget =
  node :: "Node option"
  worldPosition :: Vec3
  isValid :: bool

text \<open>The events emitted on the owning node, with their payload.\<close>

datatype event = HINT_START HintType | HINT_END "HintType option" | PLAYER_INACTIVE

text \<open>
  What a promise of the pipeline is rejected with: the string passed to \<open>reject\<close>, or the
  \<open>TypeError\<close> of a property access on \<open>null\<close>.
\<close>

datatype error = Reason string | TypeError

datatype level = LOG | WARN | ERROR

datatype arg = Str string | Num real | Vec Vec3 | Err error

text \<open>
  The three public methods that start a session differ in their handlers only; a session
  remembers which one started it, and the hint type its handlers emit.
\<close>

datatype flow = CustomFlow | InactivityFlow | StartFlow

text \<open>
  The closures of the source, one constructor each, with the variables they capture
  (\<open>targets\<close>, \<open>currentIndex\<close>).
\<close>

datatype task =
    ThenHandler flow HintType
  | CatchHandler flow HintType error
  | AwaitResume flow HintType
  | SettleDone flow HintType "TutorialTarget list"
  | MoveDone flow HintType "TutorialTarget list" nat
  | PressDone flow HintType "TutorialTarget list" nat
  | PressThen flow HintType "TutorialTarget list" nat

datatype tween_prop = WorldPosition Vec3 | Scale Vec3

datatype tween_action = To real tween_prop | Delay real | Call task

type_synonym tween = "tween_action list"

record Tutorial =
  handPrefab :: "Node option"
  inactivityDelay :: real
  handScale :: Vec3
  handOffset :: Vec3
  pressAnimationScale :: double
  pressAnimationDuration :: real
  moveSpeed :: real
  hand :: "Node option"
  inactivityTime :: real
  isActive :: bool
  isReady :: bool
  events :: "event list"
  console :: "(level \<times> arg list) list"
  microtasks :: "task list"
  timers :: "(real \<times> task) list"
  tweens :: "tween list"
  played :: "tween_action list"

text \<open>The component as its field initialisers leave it, for a given prefab.\<close>

definition initial :: "Node option \<Rightarrow> Tutorial" where
  "initial prefab =
     \<lparr> handPrefab = prefab, inactivityDelay = 15, handScale = vec 1 1 1,
       handOffset = vec 0 0 0, pressAnimationScale = double_of_ratio 12 10,
       pressAnimationDuration = 1 / 10, moveSpeed = 1 / 2, hand = None,
       inactivityTime = 0, isActive = False, isReady = False, events = [],
       console = [], microtasks = [], timers = [], tweens = [], played = [] \<rparr>"

section \<open>Effects\<close>

definition emit :: "event \<Rightarrow> Tutorial \<Rightarrow> Tutorial" where
  "emit e s = s\<lparr>events := events s @ [e]\<rparr>"

definition console_log :: "arg list \<Rightarrow> Tutorial \<Rightarrow> Tutorial" where
  "console_log m s = s\<lparr>console := console s @ [(LOG, m)]\<rparr>"

definition console_warn :: "arg list \<Rightarrow> Tutorial \<Rightarrow> Tutorial" where
  "console_warn m s = s\<lparr>console := console s @ [(WARN, m)]\<rparr>"

definition console_error :: "arg list \<Rightarrow> Tutorial \<Rightarrow> Tutorial" where
  "console_error m s = s\<lparr>console := console s @ [(ERROR, m)]\<rparr>"

text \<open>A settled promise queues its reaction as a microtask.\<close>

definition enqueue :: "task \<Rightarrow> Tutorial \<Rightarrow> Tutorial" where
  "enqueue c s = s\<lparr>microtasks := microtasks s @ [c]\<rparr>"

text \<open>\<open>scheduleOnce(callback, delay)\<close> of the component.\<close>

definition scheduleOnce :: "task \<Rightarrow> real \<Rightarrow> Tutorial \<Rightarrow> Tutorial" where
  "scheduleOnce c d s = s\<lparr>timers := timers s @ [(d, c)]\<rparr>"

text \<open>\<open>tween(this.hand). ... .start()\<close>: the tween runs on the hand from now on.\<close>

definition tween_start :: "tween \<Rightarrow> Tutorial \<Rightarrow> Tutorial" where
  "tween_start tw s = s\<lparr>tweens := tweens s @ [tw]\<rparr>"

section \<open>Setup and configuration\<close>

definition createHand :: "Tutorial \<Rightarrow> Tutorial" where
  "createHand s =
     (case handPrefab s of
        None \<Rightarrow> console_warn [Str ''Hand prefab not assigned''] s
      | Some p \<Rightarrow>
          console_log [Str ''Tutorial hand created with scale:'', Vec (handScale s),
                       Str ''and offset:'', Vec (handOffset s)]
            (s\<lparr>hand := Some (p\<lparr>active := False, nodeScale := handScale s\<rparr>)\<rparr>))"

definition startInactivityCheck :: "Tutorial \<Rightarrow> Tutorial" where
  "startInactivityCheck s = s\<lparr>inactivityTime := 0\<rparr>"

definition setup_tutorial :: "Tutorial \<Rightarrow> Tutorial" where
  "setup_tutorial s =
     (if isReady s then s
      else let s1 = createHand s;
               s2 = startInactivityCheck s1;
               s3 = s2\<lparr>isReady := True\<rparr>
           in console_log [Str ''Tutorial ready with hand scale:'', Vec (handScale s3),
                           Str ''and offset:'', Vec (handOffset s3)] s3)"

definition resetInactivityTimer :: "Tutorial \<Rightarrow> Tutorial" where
  "resetInactivityTimer s = s\<lparr>inactivityTime := 0\<rparr>"

definition setInactivityDelay :: "real \<Rightarrow> Tutorial \<Rightarrow> Tutorial" where
  "setInactivityDelay seconds s = resetInactivityTimer (s\<lparr>inactivityDelay := seconds\<rparr>)"

definition setHandScale :: "Vec3 \<Rightarrow> Tutorial \<Rightarrow> Tutorial" where
  "setHandScale scale s =
     (s\<lparr>handScale := scale\<rparr>)\<lparr>hand := map_option (\<lambda>h. h\<lparr>nodeScale := scale\<rparr>) (hand s)\<rparr>"

definition setHandScaleUniform :: "double \<Rightarrow> Tutorial \<Rightarrow> Tutorial" where
  "setHandScaleUniform scale s = setHandScale (Vec3 scale scale scale) s"

definition setHandOffset :: "Vec3 \<Rightarrow> Tutorial \<Rightarrow> Tutorial" where
  "setHandOffset offset s =
     console_log [Str ''Hand offset updated to:'', Vec offset] (s\<lparr>handOffset := offset\<rparr>)"

definition getDefaultTargets :: "Tutorial \<Rightarrow> TutorialTarget list \<times> Tutorial" where
  "getDefaultTargets s =
     ([], console_warn
            [Str ''No default targets implemented. Use setCustomTargets() or provide targets parameter.''] s)"

definition createTargetsFromPositions :: "Vec3 list \<Rightarrow> TutorialTarget list" where
  "createTargetsFromPositions positions =
     map (\<lambda>position. \<lparr>node = None, worldPosition = position, isValid = True\<rparr>) positions"

definition testHandPosition :: "TutorialTarget \<Rightarrow> Tutorial \<Rightarrow> Tutorial" where
  "testHandPosition target s =
     (case hand s of
        None \<Rightarrow> s
      | Some h \<Rightarrow>
          if \<not> isValid target then s
          else let worldPos = worldPosition target;
                   targetPosition = Vec3 (double_add (vx worldPos) (vx (handOffset s)))
                                         (double_add (vy worldPos) (vy (handOffset s)))
                                         (double_add (vz worldPos) (vz (handOffset s)))
               in console_log [Str ''Hand position test:'', Vec worldPos, Vec (handOffset s),
                               Vec targetPosition]
                    (s\<lparr>hand := Some (h\<lparr>active := True,
                                        nodeWorldPosition := targetPosition\<rparr>)\<rparr>))"

section \<open>The animation pipeline\<close>

definition playPressAnimation :: "task \<Rightarrow> Tutorial \<Rightarrow> Tutorial" where
  "playPressAnimation resolve s =
     (let originalScale = handScale s;
          pressedScale = Vec3 (double_mul (vx originalScale) (pressAnimationScale s))
                              (double_mul (vy originalScale) (pressAnimationScale s))
                              (vz originalScale)
      in tween_start [To (pressAnimationDuration s) (Scale pressedScale),
                      To (pressAnimationDuration s) (Scale originalScale),
                      Delay (3 / 10),
                      Call resolve] s)"

text \<open>
  The closure \<open>animateNextTarget\<close> of \<open>animateHandThroughTargets\<close>, with \<open>currentIndex\<close> as
  its argument \<open>i\<close>. Resolving the promise wakes the \<open>await\<close> of \<open>playHintAnimation\<close>.
\<close>

function animateNextTarget ::
  "flow \<Rightarrow> HintType \<Rightarrow> TutorialTarget list \<Rightarrow> nat \<Rightarrow> Tutorial \<Rightarrow> Tutorial" where
  "animateNextTarget f t targets i s =
     (if i \<ge> length targets then enqueue (AwaitResume f t) s
      else let target = targets ! i in
        if \<not> isValid target then animateNextTarget f t targets (i + 1) s
        else let worldPos = worldPosition target;
                 targetPosition = Vec3 (double_add (vx worldPos) (vx (handOffset s)))
                                       (double_add (vy worldPos) (vy (handOffset s)))
                                       (double_add (vz worldPos) (vz (handOffset s)))
             in tween_start [To (moveSpeed s) (WorldPosition targetPosition),
                             Call (MoveDone f t targets i)] s)"
  by pat_completeness auto
termination
  by (relation "measure (\<lambda>(f, t, targets, i, s). length targets - i)") auto

declare animateNextTarget.simps [simp del]

text \<open>
  \<open>animateHandThroughTargets\<close> up to the one-shot timer. \<open>setWorldPosition\<close> on a missing
  hand would throw inside the promise, which the \<open>try\<close> of \<open>playHintAnimation\<close> turns
  into a rejection.
\<close>

definition animateHandThroughTargets ::
  "flow \<Rightarrow> HintType \<Rightarrow> TutorialTarget list \<Rightarrow> Tutorial \<Rightarrow> Tutorial" where
  "animateHandThroughTargets f t targets s =
     (case targets of
        [] \<Rightarrow> enqueue (AwaitResume f t) s
      | firstTarget # _ \<Rightarrow>
          if \<not> isValid firstTarget then enqueue (AwaitResume f t) s
          else let firstPos = worldPosition firstTarget;
                   firstTargetPos = Vec3 (double_add (vx firstPos) (vx (handOffset s)))
                                         (double_add (vy firstPos) (vy (handOffset s)))
                                         (double_add (vz firstPos) (vz (handOffset s)))
               in case hand s of
                    None \<Rightarrow> enqueue (CatchHandler f t TypeError) s
                  | Some h \<Rightarrow>
                      scheduleOnce (SettleDone f t targets) (1 / 2)
                        (s\<lparr>hand := Some (h\<lparr>nodeWorldPosition := firstTargetPos\<rparr>)\<rparr>))"

text \<open>
  \<open>playHintAnimation\<close> up to its \<open>await\<close>. A rejection reaches the \<open>catch\<close> handler of the
  caller; \<open>this.hand.active = true\<close> on a missing hand throws, which the \<open>try\<close> turns into
  a rejection.
\<close>

definition playHintAnimation ::
  "flow \<Rightarrow> HintType \<Rightarrow> TutorialTarget list \<Rightarrow> Tutorial \<Rightarrow> Tutorial" where
  "playHintAnimation f t targets s =
     (if length targets < 1
      then enqueue (CatchHandler f t (Reason ''No valid targets provided'')) s
      else let hintTargets = take 3 targets in
        case hand s of
          None \<Rightarrow> enqueue (CatchHandler f t TypeError) s
        | Some h \<Rightarrow>
            animateHandThroughTargets f t hintTargets (s\<lparr>hand := Some (h\<lparr>active := True\<rparr>)\<rparr>))"

definition playCustomHintAnimation ::
  "flow \<Rightarrow> HintType \<Rightarrow> TutorialTarget list \<Rightarrow> Tutorial \<Rightarrow> Tutorial" where
  "playCustomHintAnimation f t targets s = playHintAnimation f t targets s"

section \<open>The public hint methods\<close>

definition showCustomHint :: "TutorialTarget list \<Rightarrow> HintType \<Rightarrow> Tutorial \<Rightarrow> Tutorial" where
  "showCustomHint targets hintType s =
     (if isActive s then s
      else let s1 = console_log [Str ''Showing custom hint with'',
                                 Num (real (length targets)), Str ''targets''] s;
               s2 = s1\<lparr>isActive := True\<rparr>;
               s3 = emit (HINT_START hintType) s2
           in playCustomHintAnimation CustomFlow hintType targets s3)"

definition showInactivityHint :: "TutorialTarget list option \<Rightarrow> Tutorial \<Rightarrow> Tutorial" where
  "showInactivityHint targets s =
     (if isActive s then s
      else let (hintTargets, s0) =
                 (case targets of Some ts \<Rightarrow> (ts, s) | None \<Rightarrow> getDefaultTargets s)
           in if length hintTargets = 0
              then console_warn [Str ''No targets available for inactivity hint''] s0
              else let s1 = console_log [Str ''Showing inactivity hint''] s0;
                       s2 = s1\<lparr>isActive := True\<rparr>;
                       s3 = emit (HINT_START INACTIVITY) s2
                   in playHintAnimation InactivityFlow INACTIVITY hintTargets s3)"

definition showStartHint :: "TutorialTarget list option \<Rightarrow> Tutorial \<Rightarrow> Tutorial" where
  "showStartHint targets s =
     (if isActive s then s
      else let (hintTargets, s0) =
                 (case targets of Some ts \<Rightarrow> (ts, s) | None \<Rightarrow> getDefaultTargets s)
           in if length hintTargets = 0
              then console_warn [Str ''No targets available for start hint''] s0
              else let s1 = console_log [Str ''Showing start hint''] s0;
                       s2 = s1\<lparr>isActive := True\<rparr>;
                       s3 = emit (HINT_START START_GAME) s2
                   in playHintAnimation StartFlow START_GAME hintTargets s3)"

definition showHint :: "HintType \<Rightarrow> TutorialTarget list option \<Rightarrow> Tutorial \<Rightarrow> Tutorial" where
  "showHint hintType targets s =
     (if isActive s then s
      else case hintType of
             START_GAME \<Rightarrow> showStartHint targets s
           | INACTIVITY \<Rightarrow> showInactivityHint targets s
           | CUSTOM \<Rightarrow> showCustomHint (case targets of Some ts \<Rightarrow> ts | None \<Rightarrow> []) CUSTOM s
           | MISSION_FAIL \<Rightarrow>
               console_warn [Str ''Hint type '', Num (real (HintType_value hintType)),
                             Str '' not implemented''] s)"

definition isShowingHint :: "Tutorial \<Rightarrow> bool" where
  "isShowingHint s = isActive s"

text \<open>
  \<open>tween(this.hand)\<close> builds a new tween on the hand with no action yet, as it does at
  the two places where the pipeline builds its tweens; the component keeps no reference
  to a tween it has started. \<open>stop()\<close> on a tween takes that tween off the running ones.
\<close>

definition tween_stop :: "tween \<Rightarrow> Tutorial \<Rightarrow> Tutorial" where
  "tween_stop tw s = s\<lparr>tweens := removeAll tw (tweens s)\<rparr>"

definition stop :: "Tutorial \<Rightarrow> Tutorial" where
  "stop s =
     (if isActive s
      then let s1 = tween_stop [] s;
               s2 = s1\<lparr>hand := map_option (\<lambda>h. h\<lparr>active := False\<rparr>) (hand s1)\<rparr>;
               s3 = s2\<lparr>isActive := False\<rparr>
           in emit (HINT_END None) s3
      else s)"

section \<open>The inactivity monitor\<close>

definition checkInactivity :: "Tutorial \<Rightarrow> Tutorial" where
  "checkInactivity s =
     (if isActive s \<or> \<not> isReady s then s
      else let s1 = s\<lparr>inactivityTime := inactivityTime s + 1\<rparr> in
        if inactivityTime s1 \<ge> inactivityDelay s1
        then let s2 = console_log [Str ''Player inactive for '', Num (inactivityTime s1),
                                   Str '' seconds''] s1;
                 s3 = emit PLAYER_INACTIVE s2;
                 s4 = showInactivityHint None s3
             in resetInactivityTimer s4
        else s1)"

section \<open>The engine: running the waiting callbacks\<close>

text \<open>The handlers and continuations, run when their promise settles or their timer fires.\<close>

fun flow_label :: "flow \<Rightarrow> string" where
  "flow_label CustomFlow = ''Custom hint error:''"
| "flow_label InactivityFlow = ''Inactivity hint error:''"
| "flow_label StartFlow = ''Start hint error:''"

fun exec_task :: "task \<Rightarrow> Tutorial \<Rightarrow> Tutorial" where
  "exec_task (ThenHandler f t) s = emit (HINT_END (Some t)) (s\<lparr>isActive := False\<rparr>)"
| "exec_task (CatchHandler f t e) s =
     emit (HINT_END (Some t)) ((console_error [Str (flow_label f), Err e] s)\<lparr>isActive := False\<rparr>)"
| "exec_task (AwaitResume f t) s =
     (case hand s of
        None \<Rightarrow> enqueue (CatchHandler f t TypeError) s
      | Some h \<Rightarrow> enqueue (ThenHandler f t) (s\<lparr>hand := Some (h\<lparr>active := False\<rparr>)\<rparr>))"
| "exec_task (SettleDone f t targets) s = animateNextTarget f t targets 0 s"
| "exec_task (MoveDone f t targets i) s = playPressAnimation (PressDone f t targets i) s"
| "exec_task (PressDone f t targets i) s = enqueue (PressThen f t targets i) s"
| "exec_task (PressThen f t targets i) s = animateNextTarget f t targets (i + 1) s"

text \<open>
  A tween that runs to its end: each \<open>to\<close> leaves the property at its target value, each
  phase is recorded in \<open>played\<close>, and \<open>call\<close> runs its callback.
\<close>

fun tween_action_run :: "tween_action \<Rightarrow> Tutorial \<Rightarrow> Tutorial" where
  "tween_action_run (To d (WorldPosition p)) s =
     s\<lparr>hand := map_option (\<lambda>h. h\<lparr>nodeWorldPosition := p\<rparr>) (hand s),
       played := played s @ [To d (WorldPosition p)]\<rparr>"
| "tween_action_run (To d (Scale v)) s =
     s\<lparr>hand := map_option (\<lambda>h. h\<lparr>nodeScale := v\<rparr>) (hand s),
       played := played s @ [To d (Scale v)]\<rparr>"
| "tween_action_run (Delay d) s = s\<lparr>played := played s @ [Delay d]\<rparr>"
| "tween_action_run (Call c) s = exec_task c s"

fun tween_complete :: "tween \<Rightarrow> Tutorial \<Rightarrow> Tutorial" where
  "tween_complete [] s = s"
| "tween_complete (a # as) s = tween_complete as (tween_action_run a s)"

text \<open>
  One turn of the engine: the oldest microtask if there is one, else the oldest timer,
  else the oldest tween runs to its end. \<open>None\<close> when nothing is waiting.
\<close>

definition next_step :: "Tutorial \<Rightarrow> Tutorial option" where
  "next_step s =
     (case microtasks s of
        c # cs \<Rightarrow> Some (exec_task c (s\<lparr>microtasks := cs\<rparr>))
      | [] \<Rightarrow>
          (case timers s of
             (d, c) # ts \<Rightarrow> Some (exec_task c (s\<lparr>timers := ts\<rparr>))
           | [] \<Rightarrow>
               (case tweens s of
                  tw # tws \<Rightarrow> Some (tween_complete tw (s\<lparr>tweens := tws\<rparr>))
                | [] \<Rightarrow> None)))"

partial_function (option) run :: "Tutorial \<Rightarrow> Tutorial option" where
  "run s = (case next_step s of None \<Rightarrow> Some s | Some s' \<Rightarrow> run s')"

text \<open>Nothing is waiting in the engine; and no session is active either.\<close>

definition quiet :: "Tutorial \<Rightarrow> bool" where
  "quiet s = (microtasks s = [] \<and> timers s = [] \<and> tweens s = [])"

definition idle :: "Tutorial \<Rightarrow> bool" where
  "idle s = (\<not> isActive s \<and> quiet s)"

section \<open>Describing a completed visit\<close>

text \<open>
  The position the hand is sent to for a target, the pressed scale, and the three phases
  of a press, as the pipeline computes them from the configuration; \<open>animated\<close> lists
  the phases of the valid targets of a list in order.
\<close>

definition target_position :: "Tutorial \<Rightarrow> TutorialTarget \<Rightarrow> Vec3" where
  "target_position s target =
     Vec3 (double_add (vx (worldPosition target)) (vx (handOffset s)))
          (double_add (vy (worldPosition target)) (vy (handOffset s)))
          (double_add (vz (worldPosition target)) (vz (handOffset s)))"

definition pressed_scale :: "Tutorial \<Rightarrow> Vec3" where
  "pressed_scale s =
     Vec3 (double_mul (vx (handScale s)) (pressAnimationScale s))
          (double_mul (vy (handScale s)) (pressAnimationScale s))
          (vz (handScale s))"

definition press_phases :: "Tutorial \<Rightarrow> tween_action list" where
  "press_phases s =
     [To (pressAnimationDuration s) (Scale (pressed_scale s)),
      To (pressAnimationDuration s) (Scale (handScale s)),
      Delay (3 / 10)]"

definition animated :: "Tutorial \<Rightarrow> TutorialTarget list \<Rightarrow> tween_action list" where
  "animated s targets =
     concat (map (\<lambda>target. To (moveSpeed s) (WorldPosition (target_position s target))
                              # press_phases s)
                 (filter isValid targets))"

definition visit_target :: "TutorialTarget \<Rightarrow> Tutorial \<Rightarrow> Tutorial" where
  "visit_target target s =
     s\<lparr>hand := map_option (\<lambda>h. h\<lparr>nodeWorldPosition := target_position s target,
                                  nodeScale := handScale s\<rparr>) (hand s),
       played := played s @ To (moveSpeed s) (WorldPosition (target_position s target))
                            # press_phases s\<rparr>"

fun visit :: "TutorialTarget list \<Rightarrow> Tutorial \<Rightarrow> Tutorial" where
  "visit [] s = s"
| "visit (target # rest) s = visit rest (if isValid target then visit_target target s else s)"

definition rest_at :: "Tutorial \<Rightarrow> TutorialTarget list \<Rightarrow> Node \<Rightarrow> Node" where
  "rest_at s targets h =
     (if filter isValid targets = [] then h
      else h\<lparr>nodeWorldPosition := target_position s (last (filter isValid targets)),
             nodeScale := handScale s\<rparr>)"

text \<open>The component right after a request was accepted, before the pipeline starts.\<close>

definition accepted :: "arg list \<Rightarrow> HintType \<Rightarrow> Tutorial \<Rightarrow> Tutorial" where
  "accepted m t s =
     s\<lparr>console := console s @ [(LOG, m)], isActive := True,
       events := events s @ [HINT_START t]\<rparr>"

section \<open>Example states\<close>

definition example_prefab :: Node where
  "example_prefab = \<lparr>active = True, nodeWorldPosition = vec 0 0 0, nodeScale = vec 2 2 2\<rparr>"

definition ready :: Tutorial where
  "ready = setup_tutorial (initial (Some example_prefab))"

definition example_targets :: "TutorialTarget list" where
  "example_targets = createTargetsFromPositions [vec 5 0 5, vec 1 2 3, vec 4 4 4, vec 9 9 9]"

definition stale_targets :: "TutorialTarget list" where
  "stale_targets =
     [\<lparr>node = None, worldPosition = vec 7 7 7, isValid = False\<rparr>,
      \<lparr>node = None, worldPosition = vec 5 0 5, isValid = True\<rparr>]"

definition showing :: Tutorial where
  "showing = showStartHint (Some example_targets) ready"

definition moving :: Tutorial where
  "moving = exec_task (SettleDone StartFlow START_GAME (take 3 example_targets))
                      (showing\<lparr>timers := []\<rparr>)"

definition pointer_shown :: Tutorial where
  "pointer_shown = testHandPosition (hd example_targets) ready"

section \<open>Numbers evaluated\<close>

lemmas double_eval = double_of_int_def double_of_ratio_def round_double_def floor_log2_def
  round_half_even_def bit_length.simps Let_def

text \<open>
  Sums and products as the program computes them: 0.1 + 0.2 is 0.30000000000000004,
  adding 1 to \<open>2 ^ 53\<close> changes nothing, 3 * 1.2 is 3.5999999999999996.
\<close>

lemma double_rounding_examples:
  "double_add (double_of_ratio 1 10) (double_of_ratio 2 10)
     = double_of_ratio 30000000000000004 100000000000000000"
  "double_add (double_of_ratio 1 10) (double_of_ratio 2 10) \<noteq> double_of_ratio 3 10"
  "double_add (double_of_int (2 ^ 53)) (double_of_int 1) = double_of_int (2 ^ 53)"
  "double_mul (double_of_int 3) (double_of_ratio 12 10)
     = double_of_ratio 35999999999999996 10000000000000000"
  "double_mul (double_of_int 3) (double_of_ratio 12 10) \<noteq> double_of_ratio 36 10"
  "double_add (double_of_int 5) (double_of_int (- 5)) = Finite False 0 0"
  by (simp_all add: double_eval)

lemma small_sums [simp]:
  "double_add (double_of_int 0) (double_of_int 0) = double_of_int 0"
  "double_add (double_of_int 1) (double_of_int 0) = double_of_int 1"
  "double_add (double_of_int 2) (double_of_int 0) = double_of_int 2"
  "double_add (double_of_int 3) (double_of_int 0) = double_of_int 3"
  "double_add (double_of_int 4) (double_of_int 0) = double_of_int 4"
  "double_add (double_of_int 5) (double_of_int 0) = double_of_int 5"
  "double_add (double_of_int 0) (double_of_int 1) = double_of_int 1"
  "double_mul (double_of_int 1) (double_of_ratio 12 10) = double_of_ratio 12 10"
  by (simp_all add: double_eval)

lemma vec_sel [simp]:
  "vx (vec a b c) = double_of_int a" "vy (vec a b c) = double_of_int b"
  "vz (vec a b c) = double_of_int c"
  by (simp_all add: vec_def)

lemma vec_fold [simp]: "Vec3 (double_of_int a) (double_of_int b) (double_of_int c) = vec a b c"
  by (simp add: vec_def)

section \<open>Running the engine\<close>

lemma run_step: "next_step s = Some s' \<Longrightarrow> run s = run s'"
  by (subst run.simps) simp

lemma run_done: "next_step s = None \<Longrightarrow> run s = Some s"
  by (subst run.simps) simp

lemma tweens_nil_upd [simp]: "tweens s = [] \<Longrightarrow> s\<lparr>tweens := []\<rparr> = s"
  by (cases s) simp

lemma microtasks_nil_upd [simp]: "microtasks s = [] \<Longrightarrow> s\<lparr>microtasks := []\<rparr> = s"
  by (cases s) simp

lemma timers_nil_upd [simp]: "timers s = [] \<Longrightarrow> s\<lparr>timers := []\<rparr> = s"
  by (cases s) simp

lemma quiet_visit_target: "quiet s \<Longrightarrow> quiet (visit_target x s)"
  by (simp add: quiet_def visit_target_def)

text \<open>One valid target: the move tween, the press tween, then the next index.\<close>

lemma move_and_press:
  assumes "quiet s" "i < length targets" "isValid (targets ! i)"
  shows "run (animateNextTarget f t targets i s)
       = run (animateNextTarget f t targets (i + 1) (visit_target (targets ! i) s))"
proof -
  let ?x = "targets ! i"
  let ?p = "target_position s ?x"
  let ?s1 = "s\<lparr>hand := map_option (\<lambda>h. h\<lparr>nodeWorldPosition := ?p\<rparr>) (hand s),
               played := played s @ [To (moveSpeed s) (WorldPosition ?p)]\<rparr>"
  have a: "animateNextTarget f t targets i s
         = tween_start [To (moveSpeed s) (WorldPosition ?p), Call (MoveDone f t targets i)] s"
    using assms by (subst animateNextTarget.simps) (simp add: target_position_def Let_def)
  have b: "next_step (animateNextTarget f t targets i s)
         = Some (playPressAnimation (PressDone f t targets i) ?s1)"
    using assms(1) by (simp add: a next_step_def tween_start_def quiet_def)
  have c: "next_step (playPressAnimation (PressDone f t targets i) ?s1)
         = Some (enqueue (PressThen f t targets i) (visit_target ?x s))"
    using assms(1)
    by (simp add: next_step_def playPressAnimation_def tween_start_def quiet_def Let_def
          enqueue_def visit_target_def press_phases_def pressed_scale_def option.map_comp comp_def)
  have d: "next_step (enqueue (PressThen f t targets i) (visit_target ?x s))
         = Some (animateNextTarget f t targets (i + 1) (visit_target ?x s))"
    using assms(1) by (simp add: next_step_def enqueue_def quiet_def visit_target_def)
  show ?thesis
    by (simp add: run_step [OF b] run_step [OF c] run_step [OF d])
qed

text \<open>The whole loop from index \<open>i\<close>: invalid targets are skipped, valid ones visited.\<close>

lemma animate_loop:
  "quiet s \<Longrightarrow> run (animateNextTarget f t targets i s)
     = run (enqueue (AwaitResume f t) (visit (drop i targets) s))"
proof (induction "length targets - i" arbitrary: i s)
  case 0
  then show ?case by (subst animateNextTarget.simps) simp
next
  case (Suc n)
  then have lt: "i < length targets" by simp
  then have dr: "drop i targets = targets ! i # drop (i + 1) targets"
    by (simp add: Cons_nth_drop_Suc)
  have n: "n = length targets - (i + 1)" using Suc.hyps(2) by simp
  show ?case
  proof (cases "isValid (targets ! i)")
    case True
    have "run (animateNextTarget f t targets i s)
        = run (animateNextTarget f t targets (i + 1) (visit_target (targets ! i) s))"
      using Suc.prems lt True by (rule move_and_press)
    also have "\<dots> = run (enqueue (AwaitResume f t)
                          (visit (drop (i + 1) targets) (visit_target (targets ! i) s)))"
      using Suc.hyps(1) [OF n] quiet_visit_target [OF Suc.prems] by simp
    finally show ?thesis using True by (simp add: dr)
  next
    case False
    have "animateNextTarget f t targets i s = animateNextTarget f t targets (i + 1) s"
      using lt False by (subst animateNextTarget.simps) simp
    then show ?thesis using Suc.hyps(1) [OF n Suc.prems] False by (simp add: dr)
  qed
qed

lemma animated_Cons:
  "animated s (x # xs) =
     (if isValid x then To (moveSpeed s) (WorldPosition (target_position s x)) # press_phases s
      else []) @ animated s xs"
  by (simp add: animated_def)

lemma animated_visit_target [simp]: "animated (visit_target x s) xs = animated s xs"
  by (simp add: animated_def visit_target_def target_position_def press_phases_def
        pressed_scale_def)

lemma target_position_visit_target [simp]:
  "target_position (visit_target x s) = target_position s"
  by (rule ext) (simp add: visit_target_def target_position_def)

lemma handScale_visit_target [simp]: "handScale (visit_target x s) = handScale s"
  by (simp add: visit_target_def)

lemma rest_at_visit_target [simp]: "rest_at (visit_target x s) xs = rest_at s xs"
  by (rule ext) (simp add: rest_at_def)

lemma rest_at_Cons_valid:
  "isValid x \<Longrightarrow>
   rest_at s (x # xs) h
     = rest_at s xs (h\<lparr>nodeWorldPosition := target_position s x, nodeScale := handScale s\<rparr>)"
  by (simp add: rest_at_def)

lemma rest_at_Cons_invalid: "\<not> isValid x \<Longrightarrow> rest_at s (x # xs) h = rest_at s xs h"
  by (simp add: rest_at_def)

lemma visit_eq:
  "visit xs s = s\<lparr>hand := map_option (rest_at s xs) (hand s),
                    played := played s @ animated s xs\<rparr>"
proof (induction xs arbitrary: s)
  case Nil
  have "rest_at s [] = (\<lambda>h. h)" by (rule ext) (simp add: rest_at_def)
  then show ?case by (simp add: animated_def option.map_ident)
next
  case (Cons x xs)
  show ?case
  proof (cases "isValid x")
    case True
    have "rest_at s (x # xs)
        = rest_at s xs \<circ> (\<lambda>h. h\<lparr>nodeWorldPosition := target_position s x,
                                     nodeScale := handScale s\<rparr>)"
      using True by (rule_tac ext) (simp add: rest_at_Cons_valid)
    then show ?thesis
      using True
      by (simp add: Cons.IH [of "visit_target x s"] animated_Cons)
         (simp add: visit_target_def option.map_comp comp_def)
  next
    case False
    have "rest_at s (x # xs) = rest_at s xs"
      using False by (rule_tac ext) (simp add: rest_at_Cons_invalid)
    then show ?thesis using False by (simp add: Cons.IH [of s] animated_Cons)
  qed
qed

lemma quiet_visit: "quiet s \<Longrightarrow> quiet (visit xs s)"
  by (simp add: visit_eq quiet_def)

text \<open>The end of a session that resolves: the await resumes, then the handler runs.\<close>

lemma resolve_run:
  assumes "quiet s" "hand s = Some h"
  shows "run (enqueue (AwaitResume f t) s)
       = Some (s\<lparr>hand := Some (h\<lparr>active := False\<rparr>), isActive := False,
                  events := events s @ [HINT_END (Some t)]\<rparr>)"
proof -
  let ?s1 = "enqueue (ThenHandler f t) (s\<lparr>hand := Some (h\<lparr>active := False\<rparr>)\<rparr>)"
  let ?s2 = "s\<lparr>hand := Some (h\<lparr>active := False\<rparr>), isActive := False,
               events := events s @ [HINT_END (Some t)]\<rparr>"
  have a: "next_step (enqueue (AwaitResume f t) s) = Some ?s1"
    using assms by (simp add: next_step_def enqueue_def quiet_def)
  have b: "next_step ?s1 = Some ?s2"
    using assms by (simp add: next_step_def enqueue_def quiet_def emit_def)
  have c: "next_step ?s2 = None"
    using assms by (simp add: next_step_def quiet_def)
  show ?thesis
    by (simp add: run_step [OF a] run_step [OF b] run_done [OF c])
qed

text \<open>The end of a session that is rejected: the catch handler runs.\<close>

lemma reject_run:
  assumes "quiet s"
  shows "run (enqueue (CatchHandler f t e) s)
       = Some (s\<lparr>console := console s @ [(ERROR, [Str (flow_label f), Err e])],
                  isActive := False,
                  events := events s @ [HINT_END (Some t)]\<rparr>)"
proof -
  let ?s2 = "s\<lparr>console := console s @ [(ERROR, [Str (flow_label f), Err e])],
               isActive := False, events := events s @ [HINT_END (Some t)]\<rparr>"
  have a: "next_step (enqueue (CatchHandler f t e) s) = Some ?s2"
    using assms by (simp add: next_step_def enqueue_def quiet_def emit_def console_error_def)
  have c: "next_step ?s2 = None"
    using assms by (simp add: next_step_def quiet_def)
  show ?thesis
    by (simp add: run_step [OF a] run_done [OF c])
qed

section \<open>The four ways a pipeline ends\<close>

lemma pipeline_empty:
  "quiet s \<Longrightarrow>
   run (playHintAnimation f t [] s)
     = Some (s\<lparr>console := console s @ [(ERROR, [Str (flow_label f),
                                                  Err (Reason ''No valid targets provided'')])],
                isActive := False,
                events := events s @ [HINT_END (Some t)]\<rparr>)"
  by (simp add: playHintAnimation_def reject_run)

lemma pipeline_no_hand:
  "quiet s \<Longrightarrow> hand s = None \<Longrightarrow> targets \<noteq> [] \<Longrightarrow>
   run (playHintAnimation f t targets s)
     = Some (s\<lparr>console := console s @ [(ERROR, [Str (flow_label f), Err TypeError])],
                isActive := False,
                events := events s @ [HINT_END (Some t)]\<rparr>)"
  by (cases targets) (simp_all add: playHintAnimation_def reject_run)

lemma pipeline_first_invalid:
  assumes "quiet s" "hand s = Some h" "\<not> isValid x"
  shows "run (playHintAnimation f t (x # xs) s)
       = Some (s\<lparr>hand := Some (h\<lparr>active := False\<rparr>), isActive := False,
                  events := events s @ [HINT_END (Some t)]\<rparr>)"
proof -
  let ?s1 = "s\<lparr>hand := Some (h\<lparr>active := True\<rparr>)\<rparr>"
  have "playHintAnimation f t (x # xs) s = enqueue (AwaitResume f t) ?s1"
    using assms by (simp add: playHintAnimation_def animateHandThroughTargets_def)
  moreover have "quiet ?s1" "hand ?s1 = Some (h\<lparr>active := True\<rparr>)"
    using assms by (simp_all add: quiet_def)
  ultimately show ?thesis
    by (simp add: resolve_run)
qed

lemma pipeline_first_valid:
  assumes "quiet s" "hand s = Some h" "isValid x"
  shows "run (playHintAnimation f t (x # xs) s)
       = Some (s\<lparr>hand := Some (h\<lparr>active := False,
                                    nodeWorldPosition :=
                                      target_position s (last (filter isValid (take 3 (x # xs)))),
                                    nodeScale := handScale s\<rparr>),
                  played := played s @ animated s (take 3 (x # xs)),
                  isActive := False,
                  events := events s @ [HINT_END (Some t)]\<rparr>)"
proof -
  define ts where "ts = take 3 (x # xs)"
  define p where "p = target_position s (last (filter isValid ts))"
  let ?h1 = "h\<lparr>active := True, nodeWorldPosition := target_position s x\<rparr>"
  let ?s1 = "s\<lparr>hand := Some ?h1\<rparr>"
  let ?h2 = "h\<lparr>active := True, nodeWorldPosition := p, nodeScale := handScale s\<rparr>"
  have ts: "ts = x # take 2 xs" by (simp add: ts_def take_Cons')
  have q1: "quiet ?s1" using assms(1) by (simp add: quiet_def)
  have a: "playHintAnimation f t (x # xs) s = scheduleOnce (SettleDone f t ts) (1 / 2) ?s1"
    using assms
    by (simp add: playHintAnimation_def animateHandThroughTargets_def ts target_position_def
          Let_def take_Cons')
  have b: "next_step (scheduleOnce (SettleDone f t ts) (1 / 2) ?s1)
         = Some (animateNextTarget f t ts 0 ?s1)"
    using assms(1) by (simp add: next_step_def scheduleOnce_def quiet_def)
  have c: "run (animateNextTarget f t ts 0 ?s1)
         = run (enqueue (AwaitResume f t) (visit ts ?s1))"
    using animate_loop [OF q1, of f t ts 0] by simp
  have tp: "target_position ?s1 = target_position s"
    by (rule ext) (simp add: target_position_def)
  have an: "animated ?s1 ts = animated s ts"
    by (simp add: animated_def target_position_def press_phases_def pressed_scale_def)
  have r: "rest_at ?s1 ts ?h1 = ?h2"
    using assms(3) unfolding p_def by (simp add: rest_at_def tp ts)
  have v: "visit ts ?s1 = s\<lparr>hand := Some ?h2, played := played s @ animated s ts\<rparr>"
    unfolding visit_eq [of ts ?s1] an by (simp add: r)
  have q2: "quiet (visit ts ?s1)" using q1 by (rule quiet_visit)
  have h2: "hand (visit ts ?s1) = Some ?h2" by (simp add: v)
  have "run (playHintAnimation f t (x # xs) s) = run (enqueue (AwaitResume f t) (visit ts ?s1))"
    by (simp add: a run_step [OF b] c)
  also have "\<dots> = Some ((visit ts ?s1)\<lparr>hand := Some (?h2\<lparr>active := False\<rparr>),
                                         isActive := False,
                                         events := events (visit ts ?s1) @ [HINT_END (Some t)]\<rparr>)"
    by (rule resolve_run [OF q2 h2])
  finally have "run (playHintAnimation f t (x # xs) s)
       = Some (s\<lparr>hand := Some (h\<lparr>active := False, nodeWorldPosition := p,
                                    nodeScale := handScale s\<rparr>),
                  played := played s @ animated s ts,
                  isActive := False,
                  events := events s @ [HINT_END (Some t)]\<rparr>)"
    by (simp add: v)
  then show ?thesis unfolding p_def ts_def .
qed

text \<open>What every pipeline on a non-empty list leaves behind, whichever way it ends.\<close>

lemma pipeline_outcome:
  assumes "quiet s" "targets \<noteq> []"
  shows "\<exists>s'. run (playHintAnimation f t targets s) = Some s'
            \<and> events s' = events s @ [HINT_END (Some t)]
            \<and> played s' = played s @ (if hand s \<noteq> None \<and> isValid (hd targets)
                                        then animated s (take 3 targets) else [])
            \<and> idle s'"
proof -
  obtain x xs where ts: "targets = x # xs" using assms(2) by (cases targets) auto
  show ?thesis
  proof (cases "hand s")
    case None
    then show ?thesis
      using pipeline_no_hand [OF assms(1) None assms(2), of f t] assms(1)
      by (simp add: idle_def quiet_def)
  next
    case (Some h)
    show ?thesis
    proof (cases "isValid x")
      case True
      then show ?thesis
        using pipeline_first_valid [OF assms(1) Some True, of f t xs] assms(1) Some
        by (simp add: ts idle_def quiet_def)
    next
      case False
      then show ?thesis
        using pipeline_first_invalid [OF assms(1) Some False, of f t xs] assms(1) Some
        by (simp add: ts idle_def quiet_def)
    qed
  qed
qed

section \<open>Accepting a request\<close>

lemma showStartHint_accepted:
  "\<not> isActive s \<Longrightarrow> targets \<noteq> [] \<Longrightarrow>
   showStartHint (Some targets) s
     = playHintAnimation StartFlow START_GAME targets
         (accepted [Str ''Showing start hint''] START_GAME s)"
  by (simp add: showStartHint_def accepted_def console_log_def emit_def Let_def)

lemma showInactivityHint_accepted:
  "\<not> isActive s \<Longrightarrow> targets \<noteq> [] \<Longrightarrow>
   showInactivityHint (Some targets) s
     = playHintAnimation InactivityFlow INACTIVITY targets
         (accepted [Str ''Showing inactivity hint''] INACTIVITY s)"
  by (simp add: showInactivityHint_def accepted_def console_log_def emit_def Let_def)

lemma showCustomHint_accepted:
  "\<not> isActive s \<Longrightarrow>
   showCustomHint targets hintType s
     = playHintAnimation CustomFlow hintType targets
         (accepted [Str ''Showing custom hint with'', Num (real (length targets)),
                    Str ''targets''] hintType s)"
  by (simp add: showCustomHint_def playCustomHintAnimation_def accepted_def console_log_def
        emit_def Let_def)

lemma accepted_fields [simp]:
  "quiet (accepted m t s) = quiet s"
  "hand (accepted m t s) = hand s"
  "played (accepted m t s) = played s"
  "events (accepted m t s) = events s @ [HINT_START t]"
  "animated (accepted m t s) = animated s"
  "timers (accepted m t s) = timers s"
  "tweens (accepted m t s) = tweens s"
  "handOffset (accepted m t s) = handOffset s"
  "microtasks (accepted m t s) = microtasks s"
  "handScale (accepted m t s) = handScale s"
  "target_position (accepted m t s) = target_position s"
  by (simp_all add: accepted_def quiet_def animated_def target_position_def press_phases_def
        pressed_scale_def fun_eq_iff)

text \<open>An empty list is turned away by the start and the inactivity flow.\<close>

lemma empty_targets_rejected:
  assumes "\<not> isActive s"
  shows "showStartHint (Some []) s
           = s\<lparr>console := console s @ [(WARN, [Str ''No targets available for start hint''])]\<rparr>"
    and "showInactivityHint (Some []) s
           = s\<lparr>console := console s
                  @ [(WARN, [Str ''No targets available for inactivity hint''])]\<rparr>"
  using assms by (simp_all add: showStartHint_def showInactivityHint_def console_warn_def)

section \<open>Facts about the example states\<close>

lemma ready_facts:
  "idle ready" "isReady ready" "\<not> isActive ready" "quiet ready"
  "inactivityTime ready = 0" "inactivityDelay ready = 15" "events ready = []"
  "hand ready = Some \<lparr>active = False, nodeWorldPosition = vec 0 0 0, nodeScale = vec 1 1 1\<rparr>"
  "handOffset ready = vec 0 0 0" "played ready = []"
  "microtasks ready = []" "timers ready = []" "tweens ready = []"
  "handScale ready = vec 1 1 1" "pressAnimationScale ready = double_of_ratio 12 10"
  "pressAnimationDuration ready = 1 / 10" "moveSpeed ready = 1 / 2"
  by (simp_all add: ready_def setup_tutorial_def initial_def createHand_def
        startInactivityCheck_def console_log_def example_prefab_def idle_def quiet_def Let_def)

lemma example_targets_facts:
  "length example_targets = 4" "example_targets \<noteq> []" "isValid (hd example_targets)"
  "worldPosition (hd example_targets) = vec 5 0 5"
  by (simp_all add: example_targets_def createTargetsFromPositions_def)

lemma showing_eq:
  "showing = scheduleOnce (SettleDone StartFlow START_GAME (take 3 example_targets)) (1 / 2)
               ((accepted [Str ''Showing start hint''] START_GAME ready)
                  \<lparr>hand := Some \<lparr>active = True, nodeWorldPosition = vec 5 0 5,
                                 nodeScale = vec 1 1 1\<rparr>\<rparr>)"
  unfolding showing_def
  by (subst showStartHint_accepted)
     (simp_all add: ready_facts example_targets_facts playHintAnimation_def Let_def
        animateHandThroughTargets_def example_targets_def createTargetsFromPositions_def)

lemma showing_facts:
  "isActive showing" "microtasks showing = []" "tweens showing = []"
  by (simp_all add: showing_eq scheduleOnce_def accepted_def ready_facts)

section \<open>Single flight\<close>

text \<open>
  C1. While the active flag is set, \<open>showHint\<close>, \<open>showCustomHint\<close>, \<open>showInactivityHint\<close>
  and \<open>showStartHint\<close> return the component exactly as it was: the flag, the events
  emitted so far (so no \<open>hint-start\<close>), the console and every waiting callback are
  unchanged.
\<close>

theorem active_request_is_noop:
  assumes "isActive s"
  shows "showHint hintType targets s = s
       \<and> showCustomHint ts hintType s = s
       \<and> showInactivityHint targets s = s
       \<and> showStartHint targets s = s"
  using assms
  by (simp add: showHint_def showCustomHint_def showInactivityHint_def showStartHint_def)

theorem active_request_is_noop_witness:
  "isActive showing
   \<and> showHint CUSTOM (Some example_targets) showing = showing
   \<and> showCustomHint example_targets CUSTOM showing = showing
   \<and> showInactivityHint (Some example_targets) showing = showing
   \<and> showStartHint (Some example_targets) showing = showing"
  using active_request_is_noop [of showing CUSTOM "Some example_targets" example_targets]
  by (simp add: showing_facts)

section \<open>Ticks of the inactivity monitor\<close>

lemma tick_below:
  "\<not> isActive s \<Longrightarrow> isReady s \<Longrightarrow> inactivityTime s + 1 < inactivityDelay s \<Longrightarrow>
   checkInactivity s = s\<lparr>inactivityTime := inactivityTime s + 1\<rparr>"
  by (simp add: checkInactivity_def Let_def)

lemma ticks_below:
  "\<not> isActive s \<Longrightarrow> isReady s \<Longrightarrow> inactivityTime s + real n < inactivityDelay s \<Longrightarrow>
   (checkInactivity ^^ n) s = s\<lparr>inactivityTime := inactivityTime s + real n\<rparr>"
proof (induction n)
  case 0
  then show ?case by simp
next
  case (Suc n)
  let ?s = "s\<lparr>inactivityTime := inactivityTime s + real n\<rparr>"
  have ih: "(checkInactivity ^^ n) s = ?s"
    using Suc by simp
  have "(checkInactivity ^^ Suc n) s = checkInactivity ((checkInactivity ^^ n) s)"
    by simp
  also have "\<dots> = checkInactivity ?s"
    by (simp only: ih)
  also have "\<dots> = ?s\<lparr>inactivityTime := inactivityTime ?s + 1\<rparr>"
    using Suc.prems by (intro tick_below) simp_all
  finally show ?case by (simp add: add.assoc)
qed

lemma tick_threshold:
  assumes "\<not> isActive s" "isReady s" "inactivityDelay s \<le> inactivityTime s + 1"
  shows "checkInactivity s
       = s\<lparr>inactivityTime := 0,
            events := events s @ [PLAYER_INACTIVE],
            console := console s
              @ [(LOG, [Str ''Player inactive for '', Num (inactivityTime s + 1),
                        Str '' seconds'']),
                 (WARN, [Str ''No default targets implemented. Use setCustomTargets() or provide targets parameter.'']),
                 (WARN, [Str ''No targets available for inactivity hint''])]\<rparr>"
  using assms
  by (simp add: checkInactivity_def Let_def console_log_def emit_def showInactivityHint_def
        getDefaultTargets_def console_warn_def resetInactivityTimer_def)

text \<open>
  C4. A tick changes nothing while a session is active or before the component is ready.
  Otherwise it adds 1 to the idle counter; when the counter then reaches the delay it
  emits \<open>player-inactive\<close>, calls the inactivity hint flow (which finds no default
  targets, warns twice and starts nothing) and sets the counter back to 0. With delay
  15 and the counter at 0, fourteen ticks only count; the fifteenth emits
  \<open>player-inactive\<close> and leaves the counter at 0 with no session active.
\<close>

theorem inactivity_tick:
  "(isActive s \<or> \<not> isReady s \<longrightarrow> checkInactivity s = s)
 \<and> (\<not> isActive s \<and> isReady s \<and> inactivityTime s + 1 < inactivityDelay s \<longrightarrow>
      checkInactivity s = s\<lparr>inactivityTime := inactivityTime s + 1\<rparr>)
 \<and> (\<not> isActive s \<and> isReady s \<and> inactivityDelay s \<le> inactivityTime s + 1 \<longrightarrow>
      checkInactivity s
        = s\<lparr>inactivityTime := 0,
             events := events s @ [PLAYER_INACTIVE],
             console := console s
               @ [(LOG, [Str ''Player inactive for '', Num (inactivityTime s + 1),
                         Str '' seconds'']),
                  (WARN, [Str ''No default targets implemented. Use setCustomTargets() or provide targets parameter.'']),
                  (WARN, [Str ''No targets available for inactivity hint''])]\<rparr>
    \<and> inactivityTime (checkInactivity s) = 0
    \<and> events (checkInactivity s) = events s @ [PLAYER_INACTIVE]
    \<and> \<not> isActive (checkInactivity s)
    \<and> quiet (checkInactivity s) = quiet s)
 \<and> (\<not> isActive s \<and> isReady s \<and> inactivityTime s = 0 \<and> inactivityDelay s = 15 \<longrightarrow>
      (checkInactivity ^^ 14) s = s\<lparr>inactivityTime := 14\<rparr>
    \<and> inactivityTime ((checkInactivity ^^ 15) s) = 0
    \<and> events ((checkInactivity ^^ 15) s) = events s @ [PLAYER_INACTIVE]
    \<and> \<not> isActive ((checkInactivity ^^ 15) s))"
proof (intro conjI impI)
  assume "isActive s \<or> \<not> isReady s"
  then show "checkInactivity s = s" by (auto simp: checkInactivity_def)
next
  assume "\<not> isActive s \<and> isReady s \<and> inactivityTime s + 1 < inactivityDelay s"
  then show "checkInactivity s = s\<lparr>inactivityTime := inactivityTime s + 1\<rparr>"
    by (simp add: checkInactivity_def Let_def)
next
  assume a: "\<not> isActive s \<and> isReady s \<and> inactivityDelay s \<le> inactivityTime s + 1"
  then have t: "checkInactivity s
       = s\<lparr>inactivityTime := 0,
            events := events s @ [PLAYER_INACTIVE],
            console := console s
              @ [(LOG, [Str ''Player inactive for '', Num (inactivityTime s + 1),
                        Str '' seconds'']),
                 (WARN, [Str ''No default targets implemented. Use setCustomTargets() or provide targets parameter.'']),
                 (WARN, [Str ''No targets available for inactivity hint''])]\<rparr>"
    by (simp add: tick_threshold)
  show "checkInactivity s
       = s\<lparr>inactivityTime := 0,
            events := events s @ [PLAYER_INACTIVE],
            console := console s
              @ [(LOG, [Str ''Player inactive for '', Num (inactivityTime s + 1),
                        Str '' seconds'']),
                 (WARN, [Str ''No default targets implemented. Use setCustomTargets() or provide targets parameter.'']),
                 (WARN, [Str ''No targets available for inactivity hint''])]\<rparr>"
    by (rule t)
  show "inactivityTime (checkInactivity s) = 0" by (simp add: t)
  show "events (checkInactivity s) = events s @ [PLAYER_INACTIVE]" by (simp add: t)
  show "\<not> isActive (checkInactivity s)" using a by (simp add: t)
  show "quiet (checkInactivity s) = quiet s" by (simp add: t quiet_def)
next
  assume a: "\<not> isActive s \<and> isReady s \<and> inactivityTime s = 0 \<and> inactivityDelay s = 15"
  then have f: "(checkInactivity ^^ 14) s = s\<lparr>inactivityTime := 14\<rparr>"
    using ticks_below [of s 14] by simp
  then show "(checkInactivity ^^ 14) s = s\<lparr>inactivityTime := 14\<rparr>" .
  have e: "(checkInactivity ^^ 15) s = checkInactivity (s\<lparr>inactivityTime := 14\<rparr>)"
    using f funpow.simps(2) [of 14 checkInactivity] by (simp add: eval_nat_numeral)
  have t: "checkInactivity (s\<lparr>inactivityTime := 14\<rparr>)
         = s\<lparr>inactivityTime := 0, events := events s @ [PLAYER_INACTIVE],
              console := console s
                @ [(LOG, [Str ''Player inactive for '', Num 15, Str '' seconds'']),
                   (WARN, [Str ''No default targets implemented. Use setCustomTargets() or provide targets parameter.'']),
                   (WARN, [Str ''No targets available for inactivity hint''])]\<rparr>"
    using a by (simp add: tick_threshold)
  show "inactivityTime ((checkInactivity ^^ 15) s) = 0" by (simp add: e t)
  show "events ((checkInactivity ^^ 15) s) = events s @ [PLAYER_INACTIVE]" by (simp add: e t)
  show "\<not> isActive ((checkInactivity ^^ 15) s)" using a by (simp add: e t)
qed

theorem inactivity_tick_witness:
  "isActive showing \<and> checkInactivity showing = showing
 \<and> \<not> isActive ready \<and> isReady ready \<and> inactivityTime ready + 1 < inactivityDelay ready
 \<and> checkInactivity ready = ready\<lparr>inactivityTime := inactivityTime ready + 1\<rparr>
 \<and> inactivityTime ready = 0 \<and> inactivityDelay ready = 15
 \<and> (checkInactivity ^^ 14) ready = ready\<lparr>inactivityTime := 14\<rparr>
 \<and> inactivityDelay (ready\<lparr>inactivityTime := 14\<rparr>) \<le> inactivityTime (ready\<lparr>inactivityTime := 14\<rparr>) + 1
 \<and> inactivityTime (checkInactivity (ready\<lparr>inactivityTime := 14\<rparr>)) = 0
 \<and> events (checkInactivity (ready\<lparr>inactivityTime := 14\<rparr>)) = [PLAYER_INACTIVE]
 \<and> inactivityTime ((checkInactivity ^^ 15) ready) = 0
 \<and> events ((checkInactivity ^^ 15) ready) = [PLAYER_INACTIVE]
 \<and> \<not> isActive ((checkInactivity ^^ 15) ready)"
  using inactivity_tick [of showing] inactivity_tick [of ready]
    inactivity_tick [of "ready\<lparr>inactivityTime := 14\<rparr>"]
  by (simp add: showing_facts ready_facts)

section \<open>The press animation\<close>

text \<open>
  C8. \<open>playPressAnimation\<close> starts one tween on the hand. Its pressed scale is the
  configured hand scale with X and Y multiplied by \<open>pressAnimationScale\<close>, by the
  multiplication of the program's numbers, and Z as it is. The tween has exactly three
  phases followed by the resolving call: to the pressed scale over
  \<open>pressAnimationDuration\<close>, back to the configured scale over the same duration, and
  a delay of 0.3. Run to its end with nothing else waiting, it records these three
  phases, leaves the hand at the configured scale and only then resolves.
\<close>

theorem press_animation_phases:
  "playPressAnimation resolve s
     = s\<lparr>tweens := tweens s @
          [[To (pressAnimationDuration s)
               (Scale (Vec3 (double_mul (vx (handScale s)) (pressAnimationScale s))
                            (double_mul (vy (handScale s)) (pressAnimationScale s))
                            (vz (handScale s)))),
            To (pressAnimationDuration s) (Scale (handScale s)),
            Delay (3 / 10),
            Call resolve]]\<rparr>
 \<and> (quiet s \<longrightarrow>
      next_step (playPressAnimation resolve s)
        = Some (exec_task resolve
            (s\<lparr>hand := map_option (\<lambda>h. h\<lparr>nodeScale := handScale s\<rparr>) (hand s),
               played := played s @
                 [To (pressAnimationDuration s)
                     (Scale (Vec3 (double_mul (vx (handScale s)) (pressAnimationScale s))
                                  (double_mul (vy (handScale s)) (pressAnimationScale s))
                                  (vz (handScale s)))),
                  To (pressAnimationDuration s) (Scale (handScale s)),
                  Delay (3 / 10)]\<rparr>)))"
  by (simp add: playPressAnimation_def tween_start_def Let_def next_step_def quiet_def
        option.map_comp comp_def)

text \<open>
  After \<open>setHandScaleUniform(3)\<close>, with the multiplier 1.2 and the duration 0.1 of the
  field initialisers: the pressed scale is (3.5999999999999996, 3.5999999999999996, 3),
  as the program computes it, and not (3.6, 3.6, 3).
\<close>

theorem press_animation_phases_witness:
  "quiet (setHandScaleUniform (double_of_int 3) ready)
 \<and> tweens (playPressAnimation (PressDone StartFlow START_GAME example_targets 0)
             (setHandScaleUniform (double_of_int 3) ready))
     = [[To (1 / 10) (Scale (Vec3 (double_of_ratio 35999999999999996 10000000000000000)
                                  (double_of_ratio 35999999999999996 10000000000000000)
                                  (double_of_int 3))),
         To (1 / 10) (Scale (vec 3 3 3)),
         Delay (3 / 10),
         Call (PressDone StartFlow START_GAME example_targets 0)]]
 \<and> double_of_ratio 35999999999999996 10000000000000000 \<noteq> double_of_ratio 36 10
 \<and> (\<exists>s'. next_step (playPressAnimation (PressDone StartFlow START_GAME example_targets 0)
                        (setHandScaleUniform (double_of_int 3) ready))
            = Some s'
        \<and> played s'
            = [To (1 / 10) (Scale (Vec3 (double_of_ratio 35999999999999996 10000000000000000)
                                       (double_of_ratio 35999999999999996 10000000000000000)
                                       (double_of_int 3))),
               To (1 / 10) (Scale (vec 3 3 3)),
               Delay (3 / 10)]
        \<and> map_option nodeScale (hand s') = Some (vec 3 3 3)
        \<and> microtasks s' = [PressThen StartFlow START_GAME example_targets 0])"
proof -
  let ?s = "setHandScaleUniform (double_of_int 3) ready"
  have f: "quiet ?s" "handScale ?s = vec 3 3 3"
    "pressAnimationScale ?s = double_of_ratio 12 10" "pressAnimationDuration ?s = 1 / 10"
    "tweens ?s = []" "played ?s = []" "microtasks ?s = []"
    "hand ?s = Some \<lparr>active = False, nodeWorldPosition = vec 0 0 0, nodeScale = vec 3 3 3\<rparr>"
    by (simp_all add: setHandScaleUniform_def setHandScale_def quiet_def ready_facts)
  have n: "double_of_ratio 35999999999999996 10000000000000000 \<noteq> double_of_ratio 36 10"
    using double_rounding_examples(4,5) by simp
  show ?thesis
    using press_animation_phases [of "PressDone StartFlow START_GAME example_targets 0" ?s] n
    by (auto simp: f double_rounding_examples(4) enqueue_def)
qed

section \<open>Stopping\<close>

lemma moving_reached: "next_step showing = Some moving"
  by (simp add: next_step_def moving_def showing_facts)
     (simp add: showing_eq scheduleOnce_def accepted_def ready_facts)

lemma example_phases:
  "animated ready (take 3 example_targets)
     = [To (1 / 2) (WorldPosition (vec 5 0 5)),
        To (1 / 10) (Scale (Vec3 (double_of_ratio 12 10) (double_of_ratio 12 10) (double_of_int 1))),
        To (1 / 10) (Scale (vec 1 1 1)), Delay (3 / 10),
        To (1 / 2) (WorldPosition (vec 1 2 3)),
        To (1 / 10) (Scale (Vec3 (double_of_ratio 12 10) (double_of_ratio 12 10) (double_of_int 1))),
        To (1 / 10) (Scale (vec 1 1 1)), Delay (3 / 10),
        To (1 / 2) (WorldPosition (vec 4 4 4)),
        To (1 / 10) (Scale (Vec3 (double_of_ratio 12 10) (double_of_ratio 12 10) (double_of_int 1))),
        To (1 / 10) (Scale (vec 1 1 1)), Delay (3 / 10)]"
  by (simp add: animated_def example_targets_def createTargetsFromPositions_def
        target_position_def press_phases_def pressed_scale_def ready_facts take_Cons')

text \<open>What \<open>stop\<close> does in general: nothing without a session; with one, see below.\<close>

lemma stop_effects:
  "(\<not> isActive s \<longrightarrow> stop s = s)
 \<and> (isActive s \<longrightarrow>
      stop s = s\<lparr>tweens := removeAll [] (tweens s),
                  hand := map_option (\<lambda>h. h\<lparr>active := False\<rparr>) (hand s),
                  isActive := False,
                  events := events s @ [HINT_END None]\<rparr>)
 \<and> ([] \<notin> set (tweens s) \<longrightarrow> tweens (stop s) = tweens s)"
  by (simp add: stop_def tween_stop_def Let_def emit_def)

text \<open>
  C9, at the input where the code departs from it. A start hint on four valid targets
  has passed its settle delay and the move tween to the first target is running when
  \<open>stop\<close> is called. The hand is hidden, the flag cleared and \<open>hint-end\<close> emitted
  without a payload, but the tween is not halted: the tween that \<open>stop\<close> builds and
  stops is not the one that runs. The engine goes on to play the moves and presses of
  all three targets on the hidden hand, and the session's own handler then emits a
  second \<open>hint-end\<close>.
\<close>

theorem stop_leaves_tween_running:
  "isActive moving
 \<and> tweens moving = [[To (1 / 2) (WorldPosition (vec 5 0 5)),
                      Call (MoveDone StartFlow START_GAME (take 3 example_targets) 0)]]
 \<and> tweens (stop moving) = tweens moving
 \<and> \<not> isActive (stop moving)
 \<and> map_option active (hand (stop moving)) = Some False
 \<and> events (stop moving) = [HINT_START START_GAME, HINT_END None]
 \<and> map_option events (run (stop moving))
     = Some [HINT_START START_GAME, HINT_END None, HINT_END (Some START_GAME)]
 \<and> map_option played (run (stop moving)) = Some (animated ready (take 3 example_targets))
 \<and> length (animated ready (take 3 example_targets)) = 12"
proof -
  define ts where "ts = take 3 example_targets"
  define h1 where "h1 = \<lparr>active = True, nodeWorldPosition = vec 5 0 5, nodeScale = vec 1 1 1\<rparr>"
  define base where "base = (accepted [Str ''Showing start hint''] START_GAME ready)\<lparr>hand := Some h1\<rparr>"
  define base' where "base' = base\<lparr>hand := Some (h1\<lparr>active := False\<rparr>), isActive := False,
                                   events := events base @ [HINT_END None]\<rparr>"
  define tw where "tw = [To (1 / 2) (WorldPosition (vec 5 0 5)), Call (MoveDone StartFlow START_GAME ts 0)]"
  have ts0: "0 < length ts" "isValid (ts ! 0)" "worldPosition (ts ! 0) = vec 5 0 5"
    by (simp_all add: ts_def example_targets_def createTargetsFromPositions_def take_Cons')
  have cfg: "handOffset base = vec 0 0 0" "moveSpeed base = 1 / 2"
            "handOffset base' = vec 0 0 0" "moveSpeed base' = 1 / 2"
    by (simp_all add: base'_def base_def accepted_def ready_facts)
  have q: "quiet base" "quiet base'"
    by (simp_all add: base'_def base_def quiet_def accepted_def ready_facts)
  have st: "animateNextTarget StartFlow START_GAME ts 0 s = tween_start tw s"
    if h: "handOffset s = vec 0 0 0" and ms: "moveSpeed s = 1 / 2" for s
  proof -
    have "animateNextTarget StartFlow START_GAME ts 0 s
        = tween_start [To (moveSpeed s) (WorldPosition (vec 5 0 5)),
                       Call (MoveDone StartFlow START_GAME ts 0)] s"
      using ts0 h by (subst animateNextTarget.simps) (simp add: Let_def)
    then show ?thesis unfolding tw_def ms .
  qed
  have m: "moving = tween_start tw base"
    unfolding moving_def showing_eq
    by (simp add: scheduleOnce_def ready_facts accepted_def)
       (simp add: st [symmetric] cfg base_def h1_def ts_def accepted_def ready_facts)
  have act: "isActive moving" "tweens moving = [tw]" "events moving = [HINT_START START_GAME]"
            "hand moving = Some h1"
    using q(1)
    by (simp_all add: m tween_start_def base_def accepted_def ready_facts quiet_def)
  have s: "stop moving = tween_start tw base'"
    by (simp add: stop_def tween_stop_def Let_def emit_def m tween_start_def base'_def base_def
          accepted_def tw_def ready_facts)
  have s': "stop moving = animateNextTarget StartFlow START_GAME ts 0 base'"
    by (simp add: s st cfg)
  have an: "animated base' ts = animated ready ts"
    by (simp add: animated_def target_position_def press_phases_def pressed_scale_def
          base'_def base_def accepted_def)
  have v: "visit ts base'
         = base'\<lparr>hand := map_option (rest_at base' ts) (hand base'),
                  played := played base' @ animated ready ts\<rparr>"
    by (simp add: visit_eq [of ts base'] an)
  have hv: "hand (visit ts base') = Some (rest_at base' ts (h1\<lparr>active := False\<rparr>))"
    unfolding v by (simp add: base'_def)
  have "run (stop moving) = run (enqueue (AwaitResume StartFlow START_GAME) (visit ts base'))"
    using animate_loop [OF q(2), of StartFlow START_GAME ts 0] by (simp add: s')
  also have "\<dots> = Some ((visit ts base')
        \<lparr>hand := Some ((rest_at base' ts (h1\<lparr>active := False\<rparr>))\<lparr>active := False\<rparr>),
         isActive := False,
         events := events (visit ts base') @ [HINT_END (Some START_GAME)]\<rparr>)"
    by (rule resolve_run [OF quiet_visit [OF q(2)] hv])
  finally have r: "run (stop moving) = Some ((visit ts base')
        \<lparr>hand := Some ((rest_at base' ts (h1\<lparr>active := False\<rparr>))\<lparr>active := False\<rparr>),
         isActive := False,
         events := events (visit ts base') @ [HINT_END (Some START_GAME)]\<rparr>)" .
  have e: "map_option events (run (stop moving))
     = Some [HINT_START START_GAME, HINT_END None, HINT_END (Some START_GAME)]"
    by (simp add: r v) (simp add: base'_def base_def accepted_def ready_facts)
  have p: "map_option played (run (stop moving)) = Some (animated ready ts)"
    by (simp add: r v) (simp add: base'_def base_def accepted_def ready_facts)
  have st1: "tweens (stop moving) = tweens moving" "\<not> isActive (stop moving)"
     "map_option active (hand (stop moving)) = Some False"
     "events (stop moving) = [HINT_START START_GAME, HINT_END None]"
    using q(1)
    by (simp_all add: s act tween_start_def base'_def quiet_def)
       (simp_all add: base_def accepted_def ready_facts)
  have l: "length (animated ready (take 3 example_targets)) = 12"
    by (simp add: example_phases)
  show ?thesis
    using act(1,2) st1 e p l unfolding tw_def ts_def by simp
qed

section \<open>The hint type without a flow\<close>

text \<open>
  C10, as amended. \<open>HintType\<close> has the value \<open>MISSION_FAIL\<close> (2) beside the three types
  that have a flow. With no session active, \<open>showHint\<close> with \<open>MISSION_FAIL\<close> appends one
  warning to the console and changes nothing else: no event, the active flag still
  false, nothing started in the engine. With a session active it returns at the guard
  and does not warn either.
\<close>

theorem mission_fail_only_warns:
  "HintType_value MISSION_FAIL = 2
 \<and> MISSION_FAIL \<notin> {START_GAME, INACTIVITY, CUSTOM}
 \<and> (\<not> isActive s \<longrightarrow>
      showHint MISSION_FAIL targets s
        = s\<lparr>console := console s
               @ [(WARN, [Str ''Hint type '', Num 2, Str '' not implemented''])]\<rparr>
    \<and> events (showHint MISSION_FAIL targets s) = events s
    \<and> \<not> isActive (showHint MISSION_FAIL targets s)
    \<and> quiet (showHint MISSION_FAIL targets s) = quiet s
    \<and> hand (showHint MISSION_FAIL targets s) = hand s)
 \<and> (isActive s \<longrightarrow> showHint MISSION_FAIL targets s = s)"
  by (simp add: showHint_def console_warn_def quiet_def)

theorem mission_fail_only_warns_witness:
  "\<not> isActive ready
 \<and> console (showHint MISSION_FAIL None ready)
     = console ready @ [(WARN, [Str ''Hint type '', Num 2, Str '' not implemented''])]
 \<and> events (showHint MISSION_FAIL None ready) = []
 \<and> \<not> isActive (showHint MISSION_FAIL None ready)
 \<and> isActive showing \<and> showHint MISSION_FAIL None showing = showing"
  using mission_fail_only_warns [of ready None] mission_fail_only_warns [of showing None]
  by (simp add: ready_facts showing_facts)

text \<open>
  C10 as it was stated (for every state) fails during a session: the call logs no
  warning, and the active flag is, and stays, true.
\<close>

theorem mission_fail_during_session:
  "isActive (showHint MISSION_FAIL None showing)
 \<and> console (showHint MISSION_FAIL None showing) = console showing"
  by (simp add: showHint_def showing_facts)

section \<open>Whole sessions\<close>

text \<open>
  C5. From an idle component, a request with more than three targets runs to its end
  with \<open>hint-start\<close> and \<open>hint-end\<close> emitted once each, and the phases played are
  those of the valid targets among the first three (none when there is no hand or the
  first target is invalid): a fourth or later target is never moved to. For the start
  and the inactivity flow the request is the very same as one with the first three
  targets only.
\<close>

theorem truncated_to_three:
  assumes "idle s" "length targets > 3"
  shows "(\<exists>s'. run (showStartHint (Some targets) s) = Some s'
             \<and> events s' = events s @ [HINT_START START_GAME, HINT_END (Some START_GAME)]
             \<and> played s' = played s @ (if hand s \<noteq> None \<and> isValid (hd targets)
                                         then animated s (take 3 targets) else []))
       \<and> (\<exists>s'. run (showInactivityHint (Some targets) s) = Some s'
             \<and> events s' = events s @ [HINT_START INACTIVITY, HINT_END (Some INACTIVITY)]
             \<and> played s' = played s @ (if hand s \<noteq> None \<and> isValid (hd targets)
                                         then animated s (take 3 targets) else []))
       \<and> (\<exists>s'. run (showCustomHint targets hintType s) = Some s'
             \<and> events s' = events s @ [HINT_START hintType, HINT_END (Some hintType)]
             \<and> played s' = played s @ (if hand s \<noteq> None \<and> isValid (hd targets)
                                         then animated s (take 3 targets) else []))
       \<and> showStartHint (Some targets) s = showStartHint (Some (take 3 targets)) s
       \<and> showInactivityHint (Some targets) s = showInactivityHint (Some (take 3 targets)) s"
proof -
  have na: "\<not> isActive s" and q: "quiet s" using assms(1) by (simp_all add: idle_def)
  have ne: "targets \<noteq> []" using assms(2) by auto
  have ne3: "take 3 targets \<noteq> []" using assms(2) by auto
  have same: "playHintAnimation f t targets = playHintAnimation f t (take 3 targets)" for f t
    using assms(2) ne by (auto simp: playHintAnimation_def fun_eq_iff)
  have start: "\<exists>s'. run (showStartHint (Some targets) s) = Some s'
             \<and> events s' = events s @ [HINT_START START_GAME, HINT_END (Some START_GAME)]
             \<and> played s' = played s @ (if hand s \<noteq> None \<and> isValid (hd targets)
                                         then animated s (take 3 targets) else [])"
    using pipeline_outcome [of "accepted [Str ''Showing start hint''] START_GAME s" targets
        StartFlow START_GAME] q ne
    by (auto simp: showStartHint_accepted [OF na ne])
  have inact: "\<exists>s'. run (showInactivityHint (Some targets) s) = Some s'
             \<and> events s' = events s @ [HINT_START INACTIVITY, HINT_END (Some INACTIVITY)]
             \<and> played s' = played s @ (if hand s \<noteq> None \<and> isValid (hd targets)
                                         then animated s (take 3 targets) else [])"
    using pipeline_outcome [of "accepted [Str ''Showing inactivity hint''] INACTIVITY s" targets
        InactivityFlow INACTIVITY] q ne
    by (auto simp: showInactivityHint_accepted [OF na ne])
  have custom: "\<exists>s'. run (showCustomHint targets hintType s) = Some s'
             \<and> events s' = events s @ [HINT_START hintType, HINT_END (Some hintType)]
             \<and> played s' = played s @ (if hand s \<noteq> None \<and> isValid (hd targets)
                                         then animated s (take 3 targets) else [])"
    using pipeline_outcome [of "accepted [Str ''Showing custom hint with'',
        Num (real (length targets)), Str ''targets''] hintType s" targets CustomFlow hintType] q ne
    by (auto simp: showCustomHint_accepted [OF na])
  have t1: "showStartHint (Some targets) s = showStartHint (Some (take 3 targets)) s"
    by (simp only: showStartHint_accepted [OF na ne] showStartHint_accepted [OF na ne3] same)
  have t2: "showInactivityHint (Some targets) s = showInactivityHint (Some (take 3 targets)) s"
    by (simp only: showInactivityHint_accepted [OF na ne]
          showInactivityHint_accepted [OF na ne3] same)
  show ?thesis using start inact custom t1 t2 by blast
qed

text \<open>
  Four targets from the ready component: the three phases of a press follow each of the
  moves to the first three; (9, 9, 9) is never a destination.
\<close>

theorem truncated_to_three_witness:
  "idle ready \<and> length example_targets > 3
 \<and> (\<exists>s'. run (showStartHint (Some example_targets) ready) = Some s'
        \<and> events s' = [HINT_START START_GAME, HINT_END (Some START_GAME)]
        \<and> played s'
            = [To (1 / 2) (WorldPosition (vec 5 0 5)),
               To (1 / 10) (Scale (Vec3 (double_of_ratio 12 10) (double_of_ratio 12 10) (double_of_int 1))),
               To (1 / 10) (Scale (vec 1 1 1)), Delay (3 / 10),
               To (1 / 2) (WorldPosition (vec 1 2 3)),
               To (1 / 10) (Scale (Vec3 (double_of_ratio 12 10) (double_of_ratio 12 10) (double_of_int 1))),
               To (1 / 10) (Scale (vec 1 1 1)), Delay (3 / 10),
               To (1 / 2) (WorldPosition (vec 4 4 4)),
               To (1 / 10) (Scale (Vec3 (double_of_ratio 12 10) (double_of_ratio 12 10) (double_of_int 1))),
               To (1 / 10) (Scale (vec 1 1 1)), Delay (3 / 10)])"
proof -
  have a: "idle ready" "length example_targets > 3"
    by (simp_all add: ready_facts example_targets_facts)
  have b: "animated ready (take 3 example_targets)
            = [To (1 / 2) (WorldPosition (vec 5 0 5)),
               To (1 / 10) (Scale (Vec3 (double_of_ratio 12 10) (double_of_ratio 12 10) (double_of_int 1))),
               To (1 / 10) (Scale (vec 1 1 1)), Delay (3 / 10),
               To (1 / 2) (WorldPosition (vec 1 2 3)),
               To (1 / 10) (Scale (Vec3 (double_of_ratio 12 10) (double_of_ratio 12 10) (double_of_int 1))),
               To (1 / 10) (Scale (vec 1 1 1)), Delay (3 / 10),
               To (1 / 2) (WorldPosition (vec 4 4 4)),
               To (1 / 10) (Scale (Vec3 (double_of_ratio 12 10) (double_of_ratio 12 10) (double_of_int 1))),
               To (1 / 10) (Scale (vec 1 1 1)), Delay (3 / 10)]"
    by (simp add: animated_def example_targets_def createTargetsFromPositions_def
          target_position_def press_phases_def pressed_scale_def ready_facts take_Cons')
  show ?thesis
    using truncated_to_three [OF a, of CUSTOM, THEN conjunct1] a
    by (simp add: ready_facts example_targets_facts b)
qed

text \<open>
  C6. From an idle component, a request whose first target is invalid starts no timer
  and no tween: the pipeline resolves on the spot. Run to its end, the events are
  \<open>hint-start\<close> and then \<open>hint-end\<close> with the same type, nothing was played, and the
  hand is where and as large as it was, hidden; the other targets are not looked at.
\<close>

theorem invalid_first_target:
  assumes "idle s" "\<not> isValid x"
  shows "(timers (showStartHint (Some (x # xs)) s) = []
          \<and> tweens (showStartHint (Some (x # xs)) s) = []
          \<and> (\<exists>s'. run (showStartHint (Some (x # xs)) s) = Some s'
                \<and> events s' = events s @ [HINT_START START_GAME, HINT_END (Some START_GAME)]
                \<and> played s' = played s
                \<and> hand s' = map_option (\<lambda>h. h\<lparr>active := False\<rparr>) (hand s)
                \<and> idle s'))
       \<and> (timers (showInactivityHint (Some (x # xs)) s) = []
          \<and> tweens (showInactivityHint (Some (x # xs)) s) = []
          \<and> (\<exists>s'. run (showInactivityHint (Some (x # xs)) s) = Some s'
                \<and> events s' = events s @ [HINT_START INACTIVITY, HINT_END (Some INACTIVITY)]
                \<and> played s' = played s
                \<and> hand s' = map_option (\<lambda>h. h\<lparr>active := False\<rparr>) (hand s)
                \<and> idle s'))
       \<and> (timers (showCustomHint (x # xs) hintType s) = []
          \<and> tweens (showCustomHint (x # xs) hintType s) = []
          \<and> (\<exists>s'. run (showCustomHint (x # xs) hintType s) = Some s'
                \<and> events s' = events s @ [HINT_START hintType, HINT_END (Some hintType)]
                \<and> played s' = played s
                \<and> hand s' = map_option (\<lambda>h. h\<lparr>active := False\<rparr>) (hand s)
                \<and> idle s'))"
proof -
  have na: "\<not> isActive s" and q: "quiet s" using assms(1) by (simp_all add: idle_def)
  have sync: "timers (playHintAnimation f t (x # xs) (accepted m t s)) = []
            \<and> tweens (playHintAnimation f t (x # xs) (accepted m t s)) = []" for f t m
    using q assms(2)
    by (simp add: playHintAnimation_def animateHandThroughTargets_def enqueue_def quiet_def
          accepted_def split: option.splits)
  have fin: "\<exists>s'. run (playHintAnimation f t (x # xs) (accepted m t s)) = Some s'
                \<and> events s' = events s @ [HINT_START t, HINT_END (Some t)]
                \<and> played s' = played s
                \<and> hand s' = map_option (\<lambda>h. h\<lparr>active := False\<rparr>) (hand s)
                \<and> idle s'" for f t m
  proof (cases "hand s")
    case None
    then show ?thesis
      using pipeline_no_hand [of "accepted m t s" "x # xs" f t] q
      by (simp add: idle_def quiet_def)
  next
    case (Some h)
    then show ?thesis
      using pipeline_first_invalid [of "accepted m t s" h x f t xs] q assms(2)
      by (simp add: idle_def quiet_def)
  qed
  show ?thesis
    using sync fin
    by (simp add: showStartHint_accepted [OF na] showInactivityHint_accepted [OF na]
          showCustomHint_accepted [OF na])
qed

theorem invalid_first_target_witness:
  "idle ready \<and> \<not> isValid (hd stale_targets)
 \<and> timers (showInactivityHint (Some stale_targets) ready) = []
 \<and> tweens (showInactivityHint (Some stale_targets) ready) = []
 \<and> (\<exists>s'. run (showInactivityHint (Some stale_targets) ready) = Some s'
        \<and> events s' = [HINT_START INACTIVITY, HINT_END (Some INACTIVITY)]
        \<and> played s' = []
        \<and> hand s' = Some \<lparr>active = False, nodeWorldPosition = vec 0 0 0,
                            nodeScale = vec 1 1 1\<rparr>)"
proof -
  have a: "idle ready" "\<not> isValid \<lparr>node = None, worldPosition = vec 7 7 7, isValid = False\<rparr>"
    by (simp_all add: ready_facts)
  show ?thesis
    using invalid_first_target [OF a,
        of "[\<lparr>node = None, worldPosition = vec 5 0 5, isValid = True\<rparr>]" CUSTOM]
    by (auto simp: stale_targets_def ready_facts)
qed

section \<open>Where the hand comes to rest\<close>

text \<open>
  C7. A valid target at (x, y, z) with the offset (ox, oy, oz): the move tween that
  \<open>animateNextTarget\<close> starts for it ends with the hand at (x+ox, y+oy, z+oz), each
  sum being the addition of the program's numbers; the first target of a list is where
  the hand is put before the settle delay, by the same sums; and a session on that
  target alone, run from an idle component to its end, leaves the hand there.
\<close>

theorem pointer_position_is_target_plus_offset:
  assumes "hand s = Some h" "quiet s" "i < length targets" "isValid (targets ! i)"
    and "worldPosition (targets ! i) = Vec3 x y z" "handOffset s = Vec3 ox oy oz"
  shows "(\<exists>s'. next_step (animateNextTarget f t targets i s) = Some s'
             \<and> map_option nodeWorldPosition (hand s') = Some (Vec3 (double_add x ox) (double_add y oy) (double_add z oz)))
       \<and> map_option nodeWorldPosition
            (hand (animateHandThroughTargets f t (targets ! i # rest) s))
           = Some (Vec3 (double_add x ox) (double_add y oy) (double_add z oz))
       \<and> (\<not> isActive s \<longrightarrow>
            (\<exists>s'. run (showCustomHint [targets ! i] t s) = Some s'
               \<and> map_option nodeWorldPosition (hand s')
                   = Some (Vec3 (double_add x ox) (double_add y oy) (double_add z oz))))"
proof (intro conjI impI)
  have "animateNextTarget f t targets i s
      = tween_start [To (moveSpeed s) (WorldPosition (Vec3 (double_add x ox) (double_add y oy) (double_add z oz))),
                     Call (MoveDone f t targets i)] s"
    using assms by (subst animateNextTarget.simps) (simp add: Let_def)
  then show "\<exists>s'. next_step (animateNextTarget f t targets i s) = Some s'
             \<and> map_option nodeWorldPosition (hand s') = Some (Vec3 (double_add x ox) (double_add y oy) (double_add z oz))"
    using assms(1,2)
    by (simp add: next_step_def tween_start_def quiet_def playPressAnimation_def Let_def)
next
  show "map_option nodeWorldPosition
            (hand (animateHandThroughTargets f t (targets ! i # rest) s))
           = Some (Vec3 (double_add x ox) (double_add y oy) (double_add z oz))"
    using assms by (simp add: animateHandThroughTargets_def scheduleOnce_def Let_def)
next
  assume na: "\<not> isActive s"
  let ?m = "[Str ''Showing custom hint with'', Num (real (length [targets ! i])), Str ''targets'']"
  have "run (playHintAnimation CustomFlow t [targets ! i] (accepted ?m t s))
       = Some ((accepted ?m t s)\<lparr>hand := Some (h\<lparr>active := False,
                    nodeWorldPosition :=
                      target_position (accepted ?m t s)
                        (last (filter isValid (take 3 [targets ! i]))),
                    nodeScale := handScale (accepted ?m t s)\<rparr>),
                  played := played (accepted ?m t s)
                    @ animated (accepted ?m t s) (take 3 [targets ! i]),
                  isActive := False,
                  events := events (accepted ?m t s) @ [HINT_END (Some t)]\<rparr>)"
    using assms(1,2,4) by (intro pipeline_first_valid) simp_all
  then show "\<exists>s'. run (showCustomHint [targets ! i] t s) = Some s'
               \<and> map_option nodeWorldPosition (hand s')
                   = Some (Vec3 (double_add x ox) (double_add y oy) (double_add z oz))"
    using assms(4,5,6)
    by (simp add: showCustomHint_accepted [OF na] target_position_def)
qed

text \<open>
  The scenario of the specification: offset (0, 1, 0), target at (5, 0, 5), hand at
  (5, 1, 5). And a sum that is rounded: offset (0.2, 0, 0), target at (0.1, 0, 0), hand
  at (0.30000000000000004, 0, 0).
\<close>

theorem pointer_position_is_target_plus_offset_witness:
  "quiet (setHandOffset (vec 0 1 0) ready)
 \<and> \<not> isActive (setHandOffset (vec 0 1 0) ready)
 \<and> isValid (example_targets ! 0)
 \<and> worldPosition (example_targets ! 0) = vec 5 0 5
 \<and> handOffset (setHandOffset (vec 0 1 0) ready) = vec 0 1 0
 \<and> (\<exists>s'. next_step (animateNextTarget StartFlow START_GAME example_targets 0
                        (setHandOffset (vec 0 1 0) ready)) = Some s'
        \<and> map_option nodeWorldPosition (hand s') = Some (vec 5 1 5))
 \<and> (\<exists>s'. run (showCustomHint [example_targets ! 0] START_GAME
                  (setHandOffset (vec 0 1 0) ready)) = Some s'
        \<and> map_option nodeWorldPosition (hand s') = Some (vec 5 1 5))
 \<and> (\<exists>s'. run (showCustomHint
                  [\<lparr>node = None,
                    worldPosition = Vec3 (double_of_ratio 1 10) (double_of_int 0) (double_of_int 0),
                    isValid = True\<rparr>] CUSTOM
                  (setHandOffset (Vec3 (double_of_ratio 2 10) (double_of_int 0) (double_of_int 0))
                     ready)) = Some s'
        \<and> map_option nodeWorldPosition (hand s')
            = Some (Vec3 (double_of_ratio 30000000000000004 100000000000000000)
                         (double_of_int 0) (double_of_int 0)))"
proof -
  let ?s = "setHandOffset (vec 0 1 0) ready"
  have a: "hand ?s = Some \<lparr>active = False, nodeWorldPosition = vec 0 0 0,
                            nodeScale = vec 1 1 1\<rparr>"
    "quiet ?s" "0 < length example_targets" "isValid (example_targets ! 0)"
    "worldPosition (example_targets ! 0)
       = Vec3 (double_of_int 5) (double_of_int 0) (double_of_int 5)"
    "handOffset ?s = Vec3 (double_of_int 0) (double_of_int 1) (double_of_int 0)"
    by (simp_all add: setHandOffset_def console_log_def ready_facts quiet_def
          example_targets_def createTargetsFromPositions_def)
  have b: "\<not> isActive ?s"
    by (simp add: setHandOffset_def console_log_def ready_facts)
  let ?o = "Vec3 (double_of_ratio 2 10) (double_of_int 0) (double_of_int 0)"
  let ?x = "\<lparr>node = None,
             worldPosition = Vec3 (double_of_ratio 1 10) (double_of_int 0) (double_of_int 0),
             isValid = True\<rparr>"
  let ?r = "setHandOffset ?o ready"
  have c: "hand ?r = Some \<lparr>active = False, nodeWorldPosition = vec 0 0 0,
                            nodeScale = vec 1 1 1\<rparr>"
    "quiet ?r" "0 < length [?x]" "isValid ([?x] ! 0)"
    "worldPosition ([?x] ! 0)
       = Vec3 (double_of_ratio 1 10) (double_of_int 0) (double_of_int 0)"
    "handOffset ?r = ?o"
    by (simp_all add: setHandOffset_def console_log_def ready_facts quiet_def)
  have d: "\<not> isActive ?r"
    by (simp add: setHandOffset_def console_log_def ready_facts)
  have first: "(\<exists>s'. next_step (animateNextTarget StartFlow START_GAME example_targets 0 ?s)
                      = Some s'
                 \<and> map_option nodeWorldPosition (hand s') = Some (vec 5 1 5))
             \<and> (\<exists>s'. run (showCustomHint [example_targets ! 0] START_GAME ?s) = Some s'
                 \<and> map_option nodeWorldPosition (hand s') = Some (vec 5 1 5))"
    using pointer_position_is_target_plus_offset [OF a, of StartFlow START_GAME "[]"] b
    by simp
  have second: "\<exists>s'. run (showCustomHint [?x] CUSTOM ?r) = Some s'
        \<and> map_option nodeWorldPosition (hand s')
            = Some (Vec3 (double_of_ratio 30000000000000004 100000000000000000)
                         (double_of_int 0) (double_of_int 0))"
    using pointer_position_is_target_plus_offset [OF c, of CustomFlow CUSTOM "[]"] d
    by (simp add: double_rounding_examples(1))
  show ?thesis
    using first second a(2,4) b
    by (simp add: setHandOffset_def console_log_def ready_facts
          example_targets_def createTargetsFromPositions_def)
qed

section \<open>Requests that the code lets through\<close>

text \<open>
  C2, at the input where the code departs from it. A custom hint with an empty target
  list is not turned away: \<open>showCustomHint\<close> has no check for it, sets the active flag and
  emits \<open>hint-start\<close>; the pipeline then rejects, the handler logs an error and emits
  \<open>hint-end\<close>. The same happens through \<open>showHint\<close> with \<open>CUSTOM\<close> and no targets.
\<close>

theorem custom_hint_without_targets:
  "isActive (showCustomHint [] CUSTOM ready)
 \<and> events (showCustomHint [] CUSTOM ready) = [HINT_START CUSTOM]
 \<and> showHint CUSTOM None ready = showCustomHint [] CUSTOM ready
 \<and> run (showCustomHint [] CUSTOM ready)
     = Some (ready\<lparr>console := console ready
                      @ [(LOG, [Str ''Showing custom hint with'', Num 0, Str ''targets'']),
                         (ERROR, [Str ''Custom hint error:'',
                                  Err (Reason ''No valid targets provided'')])],
                    events := [HINT_START CUSTOM, HINT_END (Some CUSTOM)]\<rparr>)"
proof -
  have na: "\<not> isActive ready" by (simp add: ready_facts)
  let ?s = "accepted [Str ''Showing custom hint with'', Num (real (length ([]::TutorialTarget list))),
                      Str ''targets''] CUSTOM ready"
  have q: "quiet ?s" by (simp add: ready_facts)
  have r: "run (showCustomHint [] CUSTOM ready)
     = Some (ready\<lparr>console := console ready
                      @ [(LOG, [Str ''Showing custom hint with'', Num 0, Str ''targets'']),
                         (ERROR, [Str ''Custom hint error:'',
                                  Err (Reason ''No valid targets provided'')])],
                    events := [HINT_START CUSTOM, HINT_END (Some CUSTOM)]\<rparr>)"
    unfolding showCustomHint_accepted [OF na] pipeline_empty [OF q]
    by (simp add: accepted_def ready_facts)
  have s: "isActive (showCustomHint [] CUSTOM ready)"
          "events (showCustomHint [] CUSTOM ready) = [HINT_START CUSTOM]"
    unfolding showCustomHint_accepted [OF na]
    by (simp_all add: playHintAnimation_def enqueue_def accepted_def ready_facts)
  have h: "showHint CUSTOM None ready = showCustomHint [] CUSTOM ready"
    using na by (simp add: showHint_def)
  show ?thesis using r s h by blast
qed

text \<open>
  C3, at the input where the code departs from it. The hand is visible (left so by
  \<open>testHandPosition\<close>) when a custom hint is requested with no targets. The pipeline
  rejects; the handler logs the error, clears the flag and emits \<open>hint-end\<close> with the
  type of the session, but nothing on this path hides the hand: it is still active.
\<close>

theorem rejected_session_leaves_hand_visible:
  "map_option active (hand pointer_shown) = Some True
 \<and> \<not> isActive pointer_shown
 \<and> run (showCustomHint [] CUSTOM pointer_shown)
     = Some (pointer_shown\<lparr>console := console pointer_shown
                      @ [(LOG, [Str ''Showing custom hint with'', Num 0, Str ''targets'']),
                         (ERROR, [Str ''Custom hint error:'',
                                  Err (Reason ''No valid targets provided'')])],
                    events := [HINT_START CUSTOM, HINT_END (Some CUSTOM)]\<rparr>)
 \<and> map_option active
      (hand (pointer_shown\<lparr>console := console pointer_shown
                      @ [(LOG, [Str ''Showing custom hint with'', Num 0, Str ''targets'']),
                         (ERROR, [Str ''Custom hint error:'',
                                  Err (Reason ''No valid targets provided'')])],
                    events := [HINT_START CUSTOM, HINT_END (Some CUSTOM)]\<rparr>)) = Some True"
proof -
  have p: "pointer_shown
         = ready\<lparr>hand := Some \<lparr>active = True, nodeWorldPosition = vec 5 0 5,
                               nodeScale = vec 1 1 1\<rparr>,
                 console := console ready
                   @ [(LOG, [Str ''Hand position test:'', Vec (vec 5 0 5), Vec (vec 0 0 0),
                             Vec (vec 5 0 5)])]\<rparr>"
    by (simp add: pointer_shown_def testHandPosition_def ready_facts example_targets_facts
          console_log_def Let_def)
  have na: "\<not> isActive pointer_shown" by (simp add: p ready_facts)
  let ?s = "accepted [Str ''Showing custom hint with'', Num (real (length ([]::TutorialTarget list))),
                      Str ''targets''] CUSTOM pointer_shown"
  have q: "quiet ?s" by (simp add: p quiet_def ready_facts)
  have r: "run (showCustomHint [] CUSTOM pointer_shown)
     = Some (pointer_shown\<lparr>console := console pointer_shown
                      @ [(LOG, [Str ''Showing custom hint with'', Num 0, Str ''targets'']),
                         (ERROR, [Str ''Custom hint error:'',
                                  Err (Reason ''No valid targets provided'')])],
                    events := [HINT_START CUSTOM, HINT_END (Some CUSTOM)]\<rparr>)"
    unfolding showCustomHint_accepted [OF na] pipeline_empty [OF q]
    by (simp add: accepted_def) (simp add: p ready_facts)
  have v: "map_option active (hand pointer_shown) = Some True" by (simp add: p)
  show ?thesis using r v na by simp
qed

text \<open>What does hold on every rejection: the handler clears the flag and emits \<open>hint-end\<close>.\<close>

lemma rejection_handled:
  "isActive (exec_task (CatchHandler f t e) s) = False
 \<and> events (exec_task (CatchHandler f t e) s) = events s @ [HINT_END (Some t)]
 \<and> hand (exec_task (CatchHandler f t e) s) = hand s"
  by (simp add: emit_def console_error_def)

end
